theory Spec2Isabelle
  imports Main "HOL-Library.AList"
begin

section \<open>JSON values and Python dictionaries\<close>

text \<open>
  Every message of the three servers is a JSON object, in Python a \<open>dict\<close>. A dict is
  modelled as an association list in insertion order with \<open>map_of\<close> as lookup and
  \<open>AList.update\<close> as item assignment (an existing key keeps its position, a new key is
  appended), which is what Python's dict does. Floats are not modelled.
\<close>

datatype jval =
    JNull
  | JBool bool
  | JInt int
  | JStr string
  | JList "jval list"
  | JObj "(string \<times> jval) list"

type_synonym doc = "(string \<times> jval) list"

text \<open>Python truthiness, as used by \<open>not x\<close> and \<open>x or y\<close>.\<close>

fun truthy :: "jval \<Rightarrow> bool" where
  "truthy JNull = False"
| "truthy (JBool b) = b"
| "truthy (JInt i) = (i \<noteq> 0)"
| "truthy (JStr s) = (s \<noteq> [])"
| "truthy (JList xs) = (xs \<noteq> [])"
| "truthy (JObj kvs) = (kvs \<noteq> [])"

text \<open>
  Python's \<open>==\<close> on JSON values. \<open>True == 1\<close> and \<open>False == 0\<close> hold; lists are equal
  when they have the same length and equal elements in order; dicts are equal when
  they have the same keys with equal values, whatever the order of the keys. An object
  is taken to list each key once, as a parsed JSON object does.
\<close>

fun py_num :: "jval \<Rightarrow> int option" where
  "py_num (JBool b) = Some (if b then 1 else 0)"
| "py_num (JInt i) = Some i"
| "py_num _ = None"

fun py_eq :: "jval \<Rightarrow> jval \<Rightarrow> bool"
  and py_eq_list :: "jval list \<Rightarrow> jval list \<Rightarrow> bool"
  and py_eq_items :: "(string \<times> jval) list \<Rightarrow> (string \<times> jval) list \<Rightarrow> bool" where
  "py_eq JNull b = (b = JNull)"
| "py_eq (JBool x) b = (case py_num b of Some y \<Rightarrow> (if x then 1 else 0) = y | None \<Rightarrow> False)"
| "py_eq (JInt x) b = (case py_num b of Some y \<Rightarrow> x = y | None \<Rightarrow> False)"
| "py_eq (JStr s) b = (b = JStr s)"
| "py_eq (JList xs) b = (case b of JList ys \<Rightarrow> py_eq_list xs ys | _ \<Rightarrow> False)"
| "py_eq (JObj d) b =
     (case b of
        JObj d' \<Rightarrow> py_eq_items d d' \<and> list_all (\<lambda>k. k \<in> set (map fst d)) (map fst d')
      | _ \<Rightarrow> False)"
| "py_eq_list [] ys = (ys = [])"
| "py_eq_list (x # xs) ys = (case ys of [] \<Rightarrow> False | y # ys' \<Rightarrow> py_eq x y \<and> py_eq_list xs ys')"
| "py_eq_items [] d' = True"
| "py_eq_items ((k, v) # d) d' =
     (case map_of d' k of None \<Rightarrow> False | Some w \<Rightarrow> py_eq v w \<and> py_eq_items d d')"

text \<open>\<open>d.get(k)\<close>: the value, or \<open>None\<close> (JSON null) when the key is absent.\<close>

definition dget :: "doc \<Rightarrow> string \<Rightarrow> jval" where
  "dget d k = (case map_of d k of None \<Rightarrow> JNull | Some v \<Rightarrow> v)"

section \<open>Catalog store (server/database\_server.py)\<close>

text \<open>
  \<open>self.collections\<close> maps a collection name to a dict from document id to document.
  A handler that raises is caught by \<open>_handle_client\<close>, which closes the connection
  without a response: the model returns \<open>None\<close> as the response there.
  \<open>uuid.uuid4()\<close> and \<open>datetime.now().isoformat()\<close> are inputs of the model.
\<close>

type_synonym collection = "(jval \<times> doc) list"
type_synonym catalog = "(string \<times> collection) list"

definition collection_names :: "string list" where
  "collection_names = [''User'', ''Game'', ''Version'', ''Room'', ''Review'']"


definition fail :: "string \<Rightarrow> doc" where
  "fail msg = [(''success'', JBool False), (''error'', JStr msg)]"

text \<open>\<open>_match_query\<close>: every key of the query is in the document with an equal value.\<close>

fun match_query :: "doc \<Rightarrow> doc \<Rightarrow> bool" where
  "match_query d [] = True"
| "match_query d ((k, v) # q) =
     (case map_of d k of
        None \<Rightarrow> False
      | Some w \<Rightarrow> if \<not> py_eq w v then False else match_query d q)"

text \<open>
  The handlers read \<open>query = data.get('query', {})\<close> and call \<open>_match_query\<close> on each
  document of the collection, where \<open>query.items()\<close> raises unless the query is an
  object: so a malformed query raises exactly when the collection is not empty.
  \<open>matching\<close> is the list of the matching entries in the collection's order, or \<open>None\<close>
  for the raise.
\<close>

definition get_query :: "doc \<Rightarrow> jval" where
  "get_query data = (case map_of data ''query'' of None \<Rightarrow> JObj [] | Some v \<Rightarrow> v)"

definition matching :: "jval \<Rightarrow> (jval \<times> doc) list \<Rightarrow> (jval \<times> doc) list option" where
  "matching q coll =
     (if coll = [] then Some []
      else case q of
        JObj qi \<Rightarrow> Some (filter (\<lambda>(i, d). match_query d qi) coll)
      | _ \<Rightarrow> None)"

definition get_collection :: "catalog \<Rightarrow> string \<Rightarrow> (jval \<times> doc) list" where
  "get_collection cat c = (case map_of cat c of None \<Rightarrow> [] | Some x \<Rightarrow> x)"

text \<open>
  \<open>_handle_insert\<close>. The id is the caller's \<open>_id\<close> when that is truthy and a fresh uuid
  otherwise; a list or an object as id cannot be a dict key and raises.
\<close>

definition handle_insert ::
  "string \<Rightarrow> string \<Rightarrow> catalog \<Rightarrow> string \<Rightarrow> doc \<Rightarrow> catalog \<times> doc option" where
  "handle_insert fresh now cat c data =
     (let doc_id = (if truthy (dget data ''_id'') then dget data ''_id'' else JStr fresh);
          data1 = AList.update ''_id'' doc_id data;
          data2 = AList.update ''created_at'' (JStr now) data1
      in case doc_id of
           JList _ \<Rightarrow> (cat, None)
         | JObj _ \<Rightarrow> (cat, None)
         | _ \<Rightarrow> (AList.update c (AList.update doc_id data2 (get_collection cat c)) cat,
                 Some [(''success'', JBool True), (''id'', doc_id)]))"

definition handle_find :: "catalog \<Rightarrow> string \<Rightarrow> doc \<Rightarrow> catalog \<times> doc option" where
  "handle_find cat c data =
     (case matching (get_query data) (get_collection cat c) of
        None \<Rightarrow> (cat, None)
      | Some ms \<Rightarrow>
          (cat, Some [(''success'', JBool True), (''results'', JList (map (JObj \<circ> snd) ms))]))"

definition handle_find_one :: "catalog \<Rightarrow> string \<Rightarrow> doc \<Rightarrow> catalog \<times> doc option" where
  "handle_find_one cat c data =
     (case matching (get_query data) (get_collection cat c) of
        None \<Rightarrow> (cat, None)
      | Some [] \<Rightarrow> (cat, Some (fail ''Not found''))
      | Some ((i, d) # ms) \<Rightarrow> (cat, Some [(''success'', JBool True), (''result'', JObj d)]))"

text \<open>
  \<open>doc.update(update)\<close> assigns the items of \<open>update\<close> in order. Only an object is
  modelled as the argument; any other value raises here (Python also accepts an
  empty sequence or a sequence of pairs, which no caller in this repository sends).
\<close>

definition dict_update :: "doc \<Rightarrow> doc \<Rightarrow> doc" where
  "dict_update d u = foldl (\<lambda>acc (k, v). AList.update k v acc) d u"

definition handle_update :: "string \<Rightarrow> catalog \<Rightarrow> string \<Rightarrow> doc \<Rightarrow> catalog \<times> doc option" where
  "handle_update now cat c data =
     (case matching (get_query data) (get_collection cat c) of
        None \<Rightarrow> (cat, None)
      | Some [] \<Rightarrow> (cat, Some [(''success'', JBool True), (''count'', JInt 0)])
      | Some (m # ms) \<Rightarrow>
         (case (case map_of data ''update'' of None \<Rightarrow> Some [] | Some (JObj u) \<Rightarrow> Some u
                | Some _ \<Rightarrow> None) of
            None \<Rightarrow> (cat, None)
          | Some upd \<Rightarrow>
              (let coll' = map (\<lambda>(i, d). if (i, d) \<in> set (m # ms)
                                then (i, AList.update ''updated_at'' (JStr now) (dict_update d upd))
                                else (i, d)) (get_collection cat c)
               in (AList.update c coll' cat,
                   Some [(''success'', JBool True), (''count'', JInt (int (length (m # ms))))]))))"

definition handle_delete :: "catalog \<Rightarrow> string \<Rightarrow> doc \<Rightarrow> catalog \<times> doc option" where
  "handle_delete cat c data =
     (case matching (get_query data) (get_collection cat c) of
        None \<Rightarrow> (cat, None)
      | Some ms \<Rightarrow>
          (AList.update c (filter (\<lambda>e. e \<notin> set ms) (get_collection cat c)) cat,
           Some [(''success'', JBool True), (''count'', JInt (int (length ms)))]))"

text \<open>
  \<open>_process_request\<close> of the Catalog. \<open>collection not in self.collections\<close> hashes the
  value: a list or an object raises \<open>TypeError\<close>, every other value that is not the
  name of a collection is absent. The same holds for \<open>handlers.get(action)\<close>.
\<close>

definition db_process_request ::
  "string \<Rightarrow> string \<Rightarrow> catalog \<Rightarrow> doc \<Rightarrow> catalog \<times> doc option" where
  "db_process_request fresh now cat request =
     (let action = dget request ''action''; collection = dget request ''collection''
      in if \<not> truthy action \<or> \<not> truthy collection then (cat, Some (fail ''Invalid request''))
         else case collection of
           JList _ \<Rightarrow> (cat, None)
         | JObj _ \<Rightarrow> (cat, None)
         | JStr c \<Rightarrow>
             (if map_of cat c = None then (cat, Some (fail ''Invalid request''))
              else case action of
                JList _ \<Rightarrow> (cat, None)
              | JObj _ \<Rightarrow> (cat, None)
              | JStr a \<Rightarrow>
                  (if a \<in> {''insert'', ''find'', ''find_one'', ''update'', ''delete''} then
                     (case (case map_of request ''data'' of None \<Rightarrow> Some [] | Some (JObj d) \<Rightarrow> Some d
                            | Some _ \<Rightarrow> None) of
                        None \<Rightarrow> (cat, None)
                      | Some data \<Rightarrow>
                          if a = ''insert'' then handle_insert fresh now cat c data
                          else if a = ''find'' then handle_find cat c data
                          else if a = ''find_one'' then handle_find_one cat c data
                          else if a = ''update'' then handle_update now cat c data
                          else handle_delete cat c data)
                   else (cat, Some (fail ''Unknown action'')))
              | _ \<Rightarrow> (cat, Some (fail ''Unknown action'')))
         | _ \<Rightarrow> (cat, Some (fail ''Invalid request'')))"

section \<open>Lobby (server/lobby\_server.py)\<close>

subsection \<open>State\<close>

text \<open>
  A room is the dict built by \<open>_handle_create_room\<close>. The game process and the log file
  are operating-system objects: the room holds a handle (a number), and what the Lobby
  does to them is recorded in the \<open>effects\<close> list of the state, in order:
  \<open>terminate()\<close> of a process, \<open>close()\<close> of a log file, the loss of the last reference
  to a log file that was not closed (what becomes of the file then is left to the
  Python runtime and is not part of the model), \<open>open\<close> and \<open>Popen\<close>. The key
  \<open>game_log_file\<close> is absent until the first successful start; \<open>room.get\<close> reads an
  absent key and \<open>None\<close> alike, so both are \<open>None\<close> here.
\<close>

datatype status = Waiting | In_game

fun status_str :: "status \<Rightarrow> string" where
  "status_str Waiting = ''waiting''"
| "status_str In_game = ''in_game''"

record room =
  room_id :: string
  game_name :: jval
  game_id :: jval
  version :: jval
  host_id :: jval
  host_name :: jval
  players :: "jval list"
  max_players :: jval
  status :: status
  game_process :: "nat option"
  game_port :: "int option"
  game_log_file :: "nat option"

datatype effect =
    Terminate nat
  | CloseLog nat
  | ReleaseLog nat
  | OpenLog nat string
  | Spawn nat "jval list"

text \<open>
  \<open>self.sessions\<close> maps a user id to the username of its live session (the protocol
  object of the entry is never read). \<open>self.rooms\<close> maps a room id to its room.
\<close>

record lobby =
  sessions :: "(jval \<times> jval) list"
  rooms :: "(string \<times> room) list"
  next_game_port :: int
  effects :: "effect list"

definition init_lobby :: lobby where
  "init_lobby = \<lparr>sessions = [], rooms = [], next_game_port = 5000, effects = []\<rparr>"

text \<open>The per-connection \<open>session\<close> dict of \<open>_handle_client\<close>.\<close>

record conn =
  logged_in :: bool
  user_id :: jval
  username :: jval


text \<open>
  What a handler leaves behind: the frames it has sent to the client, in order (the
  returned response last, when there is one), or the frames sent before it raised.
  \<open>_handle_client\<close> answers a raise by closing the connection.
\<close>

datatype frame = Msg doc | FileData string

datatype outcome = Reply "frame list" | Raised "frame list"

text \<open>
  Everything a request reads from outside the Lobby object: whether the k-th Catalog
  request of the handler gets through and the text of the error if not, the clock and
  the uuids, \<open>poll()\<close> of a process at the k-th call, which ports can be bound, the
  parsed \<open>game_info.json\<close> of a package directory, the files of a directory with their
  sizes, Python's \<open>str\<close> of a value (as f-strings format it), \<open>round(total / n, 1)\<close>
  (a float), and what \<open>start_game\<close> gets from \<open>open\<close> of the log file (a handle, or a
  raise), from \<open>Popen\<close> of the command (a process, or a raise with its text) and from the
  \<open>poll()\<close> after 0.3 s (an exit code, or \<open>None\<close>).
\<close>

datatype poll_result = PollNone | PollExit int | PollRaise

record env =
  db_up :: "nat \<Rightarrow> bool"
  db_error :: string
  now :: string
  fresh_id :: string
  new_uuid :: string
  hash_password :: "string \<Rightarrow> string"
  poll :: "nat \<Rightarrow> nat \<Rightarrow> poll_result"
  bindable :: "int \<Rightarrow> bool"
  manifest :: "string \<Rightarrow> jval option"
  list_files :: "string \<Rightarrow> (string \<times> int) list option"
  py_str :: "jval \<Rightarrow> string"
  round1 :: "int \<Rightarrow> nat \<Rightarrow> jval"
  new_log :: "nat option"
  popen :: "jval list \<Rightarrow> nat option"
  early_exit :: "int option"
  spawn_error :: string

definition upload_dir :: string where
  "upload_dir = ''uploaded_games''"

definition logs_dir :: string where
  "logs_dir = ''game_server_logs''"

definition advertise_host :: string where
  "advertise_host = ''linux4.cs.nycu.edu.tw''"

subsection \<open>Port allocator\<close>

text \<open>
  \<open>_find_available_port\<close>: \<open>range(self.next_game_port, 5100)\<close> is \<open>[cursor..5099]\<close>; a
  port whose test socket cannot be created or bound is skipped.
\<close>

definition find_available_port :: "(int \<Rightarrow> bool) \<Rightarrow> int \<Rightarrow> int \<times> (string + int)" where
  "find_available_port bind cursor =
     (case find bind [cursor..5099] of
        Some port \<Rightarrow> (port + 1, Inr port)
      | None \<Rightarrow> (5000, Inl ''No available ports in range 5000-5100''))"

text \<open>Back-to-back calls, the k-th under the bindability \<open>binds k\<close>; stops at a failure.\<close>

fun allocate_many :: "(nat \<Rightarrow> int \<Rightarrow> bool) \<Rightarrow> nat \<Rightarrow> nat \<Rightarrow> int \<Rightarrow> int \<times> int list \<times> bool" where
  "allocate_many binds k 0 cursor = (cursor, [], True)"
| "allocate_many binds k (Suc n) cursor =
     (case find_available_port (binds k) cursor of
        (cursor', Inl e) \<Rightarrow> (cursor', [], False)
      | (cursor', Inr p) \<Rightarrow>
          (case allocate_many binds (Suc k) n cursor' of
             (c, ps, ok) \<Rightarrow> (c, p # ps, ok)))"

subsection \<open>Catalog requests and session cleanup\<close>

text \<open>
  \<open>_db_request\<close>: a connection error gives an error response; a Catalog that closes
  the connection without answering, or answers with an empty object, gives
  \<open>No response\<close>.
\<close>

definition db_call ::
  "bool \<Rightarrow> string \<Rightarrow> string \<Rightarrow> string \<Rightarrow> catalog \<Rightarrow> doc \<Rightarrow> catalog \<times> doc" where
  "db_call up err uuid stamp cat request =
     (if up then
        (case db_process_request uuid stamp cat request of
           (cat', Some r) \<Rightarrow> (cat', if r = [] then fail ''No response'' else r)
         | (cat', None) \<Rightarrow> (cat', fail ''No response''))
      else (cat, fail err))"

definition db_request :: "env \<Rightarrow> nat \<Rightarrow> catalog \<Rightarrow> doc \<Rightarrow> catalog \<times> doc" where
  "db_request e k cat request = db_call (db_up e k) (db_error e) (fresh_id e) (now e) cat request"

text \<open>
  \<open>_remove_user_from_all_rooms\<close>, over the snapshot \<open>list(self.rooms.items())\<close>. The
  keys of a dict are distinct, so deleting the key of the current item drops that item.
  A room left empty is deleted after terminating its process; the log file is not
  closed here, the deleted room held the only reference to it.
\<close>

fun remove_user_from_all_rooms ::
  "(jval \<times> jval) list \<Rightarrow> jval \<Rightarrow> (string \<times> room) list \<Rightarrow> (string \<times> room) list \<times> effect list" where
  "remove_user_from_all_rooms ss u [] = ([], [])"
| "remove_user_from_all_rooms ss u ((rid, r) # rest) =
     (let (rest', es) = remove_user_from_all_rooms ss u rest
      in if u \<in> set (players r) then
           (let ps = remove1 u (players r)
            in if ps = [] then
                 (rest', (case game_process r of Some p \<Rightarrow> [Terminate p] | None \<Rightarrow> [])
                         @ (case game_log_file r of Some h \<Rightarrow> [ReleaseLog h] | None \<Rightarrow> [])
                         @ es)
               else if u = host_id r then
                 ((rid, r\<lparr>players := ps, host_id := hd ps,
                           host_name := (case map_of ss (hd ps) of
                                           Some n \<Rightarrow> n | None \<Rightarrow> host_name r)\<rparr>) # rest', es)
               else ((rid, r\<lparr>players := ps\<rparr>) # rest', es))
         else ((rid, r) # rest', es))"

definition remove_user :: "jval \<Rightarrow> lobby \<Rightarrow> lobby" where
  "remove_user u l =
     (let (rs, es) = remove_user_from_all_rooms (sessions l) u (rooms l)
      in l\<lparr>rooms := rs, effects := effects l @ es\<rparr>)"

text \<open>\<open>_cleanup_session\<close>.\<close>

definition cleanup_session :: "conn \<Rightarrow> lobby \<Rightarrow> lobby" where
  "cleanup_session s l =
     remove_user (user_id s) (l\<lparr>sessions := AList.delete (user_id s) (sessions l)\<rparr>)"

subsection \<open>Request helpers\<close>

text \<open>
  \<open>str.strip()\<close>. A character of the model is a code point below 256; the white space
  among them is 9 to 13, 28 to 32, 133 and 160.
\<close>

definition is_space :: "char \<Rightarrow> bool" where
  "is_space c = ((of_char c :: nat) \<in> {9, 10, 11, 12, 13, 28, 29, 30, 31, 32, 133, 160})"

definition strip :: "string \<Rightarrow> string" where
  "strip s = rev (dropWhile is_space (rev (dropWhile is_space s)))"

text \<open>\<open>request.get(key, '').strip()\<close>: a value that is not a string raises.\<close>

definition get_stripped :: "doc \<Rightarrow> string \<Rightarrow> string option" where
  "get_stripped request k =
     (case map_of request k of
        None \<Rightarrow> Some []
      | Some (JStr s) \<Rightarrow> Some (strip s)
      | Some _ \<Rightarrow> None)"

definition find_one_request :: "string \<Rightarrow> doc \<Rightarrow> doc" where
  "find_one_request c q =
     [(''action'', JStr ''find_one''), (''collection'', JStr c),
      (''data'', JObj [(''query'', JObj q)])]"

definition find_request :: "string \<Rightarrow> doc \<Rightarrow> doc" where
  "find_request c q =
     [(''action'', JStr ''find''), (''collection'', JStr c),
      (''data'', JObj [(''query'', JObj q)])]"

definition insert_request :: "string \<Rightarrow> doc \<Rightarrow> doc" where
  "insert_request c d =
     [(''action'', JStr ''insert''), (''collection'', JStr c), (''data'', JObj d)]"

definition success :: "doc \<Rightarrow> bool" where
  "success r = truthy (dget r ''success'')"

text \<open>\<open>d[k]\<close> on a value that should be an object: \<open>None\<close> is the \<open>KeyError\<close> or \<open>TypeError\<close>.\<close>

definition item :: "jval \<Rightarrow> string \<Rightarrow> jval option" where
  "item v k = (case v of JObj d \<Rightarrow> map_of d k | _ \<Rightarrow> None)"

text \<open>\<open>os.path.join\<close> of two components on POSIX.\<close>

definition path_join :: "string \<Rightarrow> string \<Rightarrow> string" where
  "path_join a b =
     (if b \<noteq> [] \<and> hd b = CHR ''/'' then b
      else if a = [] \<or> last a = CHR ''/'' then a @ b
      else a @ ''/'' @ b)"

subsection \<open>Accounts\<close>

definition handle_register :: "env \<Rightarrow> catalog \<Rightarrow> doc \<Rightarrow> catalog \<times> outcome" where
  "handle_register e cat request =
     (case (get_stripped request ''username'', get_stripped request ''password'') of
        (Some uname, Some password) \<Rightarrow>
          if uname = [] \<or> password = [] then
            (cat, Reply [Msg (fail ''Username and password required'')])
          else
            (let (cat1, check) = db_request e 0 cat
                   (find_one_request ''User''
                      [(''username'', JStr uname), (''account_type'', JStr ''player'')])
             in if success check then (cat1, Reply [Msg (fail ''Username already exists'')])
                else
                  (let (cat2, result) = db_request e 1 cat1
                         (insert_request ''User''
                            [(''username'', JStr uname),
                             (''password_hash'', JStr (hash_password e password)),
                             (''account_type'', JStr ''player'')])
                   in if success result then
                        (cat2, Reply [Msg [(''success'', JBool True),
                                           (''message'', JStr ''Player account created'')]])
                      else (cat2, Reply [Msg (fail ''Registration failed'')])))
      | _ \<Rightarrow> (cat, Raised []))"

text \<open>
  \<open>_handle_login\<close>. The credential check comes first, then the check that the user id
  has no session, then the session is stored; the handler is taken as one atomic step
  (the two \<open>with self.lock\<close> blocks are not interleaved with other requests).
\<close>

definition hashable :: "jval \<Rightarrow> bool" where
  "hashable v = (case v of JList _ \<Rightarrow> False | JObj _ \<Rightarrow> False | _ \<Rightarrow> True)"

definition handle_login ::
  "env \<Rightarrow> catalog \<Rightarrow> lobby \<Rightarrow> conn \<Rightarrow> doc \<Rightarrow> catalog \<times> lobby \<times> conn \<times> outcome" where
  "handle_login e cat l s request =
     (case (get_stripped request ''username'', get_stripped request ''password'') of
        (Some uname, Some password) \<Rightarrow>
          if uname = [] \<or> password = [] then
            (cat, l, s, Reply [Msg (fail ''Username and password required'')])
          else
            (let (cat1, result) = db_request e 0 cat
                   (find_one_request ''User''
                      [(''username'', JStr uname), (''account_type'', JStr ''player'')])
             in if \<not> success result then
                  (cat1, l, s, Reply [Msg (fail ''Invalid username or password'')])
                else
                  (case map_of result ''result'' of
                     None \<Rightarrow> (cat1, l, s, Raised [])
                   | Some user \<Rightarrow>
                      (case item user ''password_hash'' of
                         None \<Rightarrow> (cat1, l, s, Raised [])
                       | Some ph \<Rightarrow>
                          if \<not> py_eq ph (JStr (hash_password e password)) then
                            (cat1, l, s, Reply [Msg (fail ''Invalid username or password'')])
                          else
                            (case item user ''_id'' of
                               None \<Rightarrow> (cat1, l, s, Raised [])
                             | Some uid \<Rightarrow>
                                if \<not> hashable uid then (cat1, l, s, Raised [])
                                else if map_of (sessions l) uid \<noteq> None then
                                  (cat1, l, s, Reply [Msg (fail ''Account already logged in'')])
                                else
                                  (case item user ''username'' of
                                     None \<Rightarrow>
                                       (cat1, l, s\<lparr>logged_in := True, user_id := uid\<rparr>, Raised [])
                                   | Some un \<Rightarrow>
                                       (cat1,
                                        l\<lparr>sessions := AList.update uid (JStr uname) (sessions l)\<rparr>,
                                        s\<lparr>logged_in := True, user_id := uid, username := un\<rparr>,
                                        Reply [Msg [(''success'', JBool True),
                                          (''message'', JStr (''Welcome '' @ uname @ ''!''))]]))))))
      | _ \<Rightarrow> (cat, l, s, Raised []))"

subsection \<open>Catalog reads\<close>

definition handle_list_games :: "env \<Rightarrow> catalog \<Rightarrow> catalog \<times> outcome" where
  "handle_list_games e cat =
     (let (cat1, result) = db_request e 0 cat (find_request ''Game'' [(''status'', JStr ''active'')])
      in if success result then
           (case map_of result ''results'' of
              None \<Rightarrow> (cat1, Raised [])
            | Some rs \<Rightarrow> (cat1, Reply [Msg [(''success'', JBool True), (''games'', rs)]]))
         else (cat1, Reply [Msg (fail ''Failed to fetch games'')]))"

text \<open>\<open>sum(r['rating'] for r in reviews)\<close>: a review without a numeric rating raises.\<close>

fun sum_ratings :: "jval list \<Rightarrow> int option" where
  "sum_ratings [] = Some 0"
| "sum_ratings (r # rs) =
     (case item r ''rating'' of
        None \<Rightarrow> None
      | Some v \<Rightarrow>
         (case py_num v of
            None \<Rightarrow> None
          | Some n \<Rightarrow> (case sum_ratings rs of None \<Rightarrow> None | Some t \<Rightarrow> Some (n + t))))"

definition handle_game_info :: "env \<Rightarrow> catalog \<Rightarrow> doc \<Rightarrow> catalog \<times> outcome" where
  "handle_game_info e cat request =
     (let gname = dget request ''game_name''
      in if \<not> truthy gname then (cat, Reply [Msg (fail ''Game name required'')])
         else
          (let (cat1, game_result) = db_request e 0 cat
                 (find_one_request ''Game'' [(''name'', gname), (''status'', JStr ''active'')])
           in if \<not> success game_result then (cat1, Reply [Msg (fail ''Game not found'')])
              else
               (case map_of game_result ''result'' of
                  None \<Rightarrow> (cat1, Raised [])
                | Some game \<Rightarrow>
                   (case item game ''_id'' of
                      None \<Rightarrow> (cat1, Raised [])
                    | Some gid \<Rightarrow>
                       (let (cat2, reviews_result) = db_request e 1 cat1
                              (find_request ''Review'' [(''game_id'', gid)])
                        in case (if success reviews_result then
                                   (case map_of reviews_result ''results'' of
                                      None \<Rightarrow> Some []
                                    | Some (JList rs) \<Rightarrow> Some rs
                                    | Some _ \<Rightarrow> None)
                                 else Some []) of
                             None \<Rightarrow> (cat2, Raised [])
                           | Some reviews \<Rightarrow>
                              (case sum_ratings reviews of
                                 None \<Rightarrow> (cat2, Raised [])
                               | Some tot \<Rightarrow>
                                  (cat2, Reply [Msg
                                     [(''success'', JBool True),
                                      (''game'', game),
                                      (''reviews'', JList (take 10 reviews)),
                                      (''avg_rating'',
                                         if reviews = [] then JInt 0
                                         else round1 e tot (length reviews)),
                                      (''review_count'', JInt (int (length reviews)))]])))))))"

text \<open>
  \<open>_handle_download_game\<close> sends its frames itself and returns \<open>None\<close>. The connection
  to the client is taken to stay up while the frames are sent.
\<close>

definition file_frames :: "string \<Rightarrow> (string \<times> int) list \<Rightarrow> frame list" where
  "file_frames game_dir files =
     concat (map (\<lambda>(rel_path, size).
        [Msg [(''path'', JStr rel_path), (''size'', JInt size)],
         FileData (path_join game_dir rel_path)]) files)"

definition handle_download_game :: "env \<Rightarrow> catalog \<Rightarrow> doc \<Rightarrow> catalog \<times> outcome" where
  "handle_download_game e cat request =
     (let gname = dget request ''game_name''
      in if \<not> truthy gname then (cat, Reply [Msg (fail ''Game name required'')])
         else
          (let (cat1, game_result) = db_request e 0 cat
                 (find_one_request ''Game'' [(''name'', gname), (''status'', JStr ''active'')])
           in if \<not> success game_result then (cat1, Reply [Msg (fail ''Game not found'')])
              else
               (case map_of game_result ''result'' of
                  None \<Rightarrow> (cat1, Raised [])
                | Some game \<Rightarrow>
                   (case (item game ''latest_version'', item game ''_id'') of
                      (Some ver, Some gid) \<Rightarrow>
                       (let (cat2, version_result) = db_request e 1 cat1
                              (find_one_request ''Version'' [(''game_id'', gid), (''version'', ver)])
                        in if \<not> success version_result then
                             (cat2, Reply [Msg (fail ''Version not found'')])
                           else
                            (case map_of version_result ''result'' of
                               None \<Rightarrow> (cat2, Raised [])
                             | Some version_info \<Rightarrow>
                                (case item version_info ''file_path'' of
                                   Some (JStr fp) \<Rightarrow>
                                    (let game_dir = path_join upload_dir fp
                                     in case list_files e game_dir of
                                          None \<Rightarrow> (cat2, Reply [Msg (fail ''Game files not found'')])
                                        | Some files \<Rightarrow>
                                           (cat2, Reply
                                             ([Msg [(''success'', JBool True),
                                                    (''version'', ver),
                                                    (''message'', JStr (''Sending '' @
                                                       py_str e (JInt (int (length files))) @
                                                       '' files...''))],
                                               Msg [(''file_count'', JInt (int (length files)))]]
                                              @ file_frames game_dir files)))
                                 | _ \<Rightarrow> (cat2, Raised []))))
                    | _ \<Rightarrow> (cat1, Raised [])))))"

subsection \<open>Rooms\<close>

definition handle_list_rooms :: "lobby \<Rightarrow> outcome" where
  "handle_list_rooms l =
     Reply [Msg [(''success'', JBool True),
                 (''rooms'', JList (map (\<lambda>(rid, r). JObj
                    [(''room_id'', JStr rid),
                     (''game_name'', game_name r),
                     (''version'', version r),
                     (''host'', host_name r),
                     (''players'', JInt (int (length (players r)))),
                     (''max_players'', max_players r),
                     (''status'', JStr (status_str (status r)))]) (rooms l)))]]"

definition handle_create_room ::
  "env \<Rightarrow> catalog \<Rightarrow> lobby \<Rightarrow> conn \<Rightarrow> doc \<Rightarrow> catalog \<times> lobby \<times> outcome" where
  "handle_create_room e cat l s request =
     (let gname = dget request ''game_name''
      in if \<not> truthy gname then (cat, l, Reply [Msg (fail ''Game name required'')])
         else
          (let l1 = remove_user (user_id s) l;
               (cat1, game_result) = db_request e 0 cat
                 (find_one_request ''Game'' [(''name'', gname), (''status'', JStr ''active'')])
           in if \<not> success game_result then (cat1, l1, Reply [Msg (fail ''Game not found'')])
              else
               (case map_of game_result ''result'' of
                  None \<Rightarrow> (cat1, l1, Raised [])
                | Some game \<Rightarrow>
                   (case (item game ''_id'', item game ''latest_version'', item game ''max_players'') of
                      (Some gid, Some ver, Some maxp) \<Rightarrow>
                       (let rid = take 8 (new_uuid e);
                            r = \<lparr>room_id = rid, game_name = gname, game_id = gid, version = ver,
                                 host_id = user_id s, host_name = username s,
                                 players = [user_id s], max_players = maxp, status = Waiting,
                                 game_process = None, game_port = None, game_log_file = None\<rparr>
                        in (cat1, l1\<lparr>rooms := AList.update rid r (rooms l1)\<rparr>,
                            Reply [Msg [(''success'', JBool True),
                                        (''room_id'', JStr rid),
                                        (''message'', JStr (''Room created for '' @ py_str e gname)),
                                        (''is_host'', JBool True)]]))
                    | _ \<Rightarrow> (cat1, l1, Raised [])))))"

text \<open>
  \<open>_handle_join_room\<close>. \<open>len(players) >= max_players\<close> raises when \<open>max_players\<close> is not
  a number.
\<close>

definition handle_join_room :: "lobby \<Rightarrow> conn \<Rightarrow> doc \<Rightarrow> lobby \<times> outcome" where
  "handle_join_room l s request =
     (let rid = dget request ''room_id''
      in if \<not> truthy rid then (l, Reply [Msg (fail ''Room ID required'')])
         else
          (let l1 = remove_user (user_id s) l
           in if \<not> hashable rid then (l1, Raised [])
              else case (case rid of JStr k \<Rightarrow> map_option (Pair k) (map_of (rooms l1) k)
                         | _ \<Rightarrow> None) of
                None \<Rightarrow> (l1, Reply [Msg (fail ''Room not found'')])
              | Some (k, r) \<Rightarrow>
                 if status r \<noteq> Waiting then
                   (l1, Reply [Msg (fail ''Room is not accepting players'')])
                 else
                  (case py_num (max_players r) of
                     None \<Rightarrow> (l1, Raised [])
                   | Some m \<Rightarrow>
                      if int (length (players r)) \<ge> m then (l1, Reply [Msg (fail ''Room is full'')])
                      else if user_id s \<in> set (players r) then
                        (l1, Reply [Msg (fail ''Already in room'')])
                      else
                        (l1\<lparr>rooms := AList.update k
                                        (r\<lparr>players := players r @ [user_id s]\<rparr>) (rooms l1)\<rparr>,
                         Reply [Msg [(''success'', JBool True),
                                     (''room_id'', rid),
                                     (''game_name'', game_name r),
                                     (''is_host'', JBool False)]]))))"

subsection \<open>Room lifecycle\<close>

text \<open>The first room of \<open>self.rooms\<close>, in its order, that has the user as a player.\<close>

definition find_room :: "jval \<Rightarrow> lobby \<Rightarrow> (string \<times> room) option" where
  "find_room u l = find (\<lambda>(k, r). u \<in> set (players r)) (rooms l)"

definition put_room :: "string \<Rightarrow> room \<Rightarrow> effect list \<Rightarrow> lobby \<Rightarrow> lobby" where
  "put_room k r es l = l\<lparr>rooms := AList.update k r (rooms l), effects := effects l @ es\<rparr>"

text \<open>
  The reset to \<open>waiting\<close> that \<open>leave_room\<close>, \<open>start_game\<close>, \<open>check_game_status\<close> and
  \<open>end_game\<close> share: close the log file if the room has one, clear the four fields.
\<close>

definition close_log :: "room \<Rightarrow> effect list" where
  "close_log r = (case game_log_file r of Some h \<Rightarrow> [CloseLog h] | None \<Rightarrow> [])"

definition reset_room :: "room \<Rightarrow> room" where
  "reset_room r = r\<lparr>status := Waiting, game_process := None, game_port := None,
                     game_log_file := None\<rparr>"

text \<open>One \<open>poll()\<close>: the process has ended if there is none, or \<open>poll\<close> answers or raises.\<close>

definition process_ended :: "env \<Rightarrow> room \<Rightarrow> bool" where
  "process_ended e r =
     (case game_process r of None \<Rightarrow> True | Some p \<Rightarrow> poll e p 0 \<noteq> PollNone)"

definition process_ended_retry :: "env \<Rightarrow> room \<Rightarrow> bool" where
  "process_ended_retry e r =
     (case game_process r of
        None \<Rightarrow> True
      | Some p \<Rightarrow> list_ex (\<lambda>i. poll e p i \<noteq> PollNone) [0..<10])"

definition handle_leave_room :: "env \<Rightarrow> lobby \<Rightarrow> conn \<Rightarrow> lobby \<times> outcome" where
  "handle_leave_room e l s =
     (case find_room (user_id s) l of
        None \<Rightarrow> (l, Reply [Msg (fail ''Not in any room'')])
      | Some (k, r) \<Rightarrow>
         (let ps = remove1 (user_id s) (players r);
              left = Reply [Msg [(''success'', JBool True), (''message'', JStr ''Left room'')]]
          in if ps = [] then
               (l\<lparr>rooms := AList.delete k (rooms l),
                  effects := effects l
                     @ (case game_process r of Some p \<Rightarrow> [Terminate p] | None \<Rightarrow> [])
                     @ close_log r\<rparr>, left)
             else if user_id s = host_id r then
               (case map_of (sessions l) (hd ps) of
                  None \<Rightarrow> (put_room k (r\<lparr>players := ps, host_id := hd ps\<rparr>) [] l, Raised [])
                | Some n \<Rightarrow>
                   (let r1 = r\<lparr>players := ps, host_id := hd ps, host_name := n\<rparr>
                    in if status r1 = In_game \<and> process_ended e r1 then
                         (put_room k (reset_room r1) (close_log r1) l, left)
                       else (put_room k r1 [] l, left)))
             else (put_room k (r\<lparr>players := ps\<rparr>) [] l, left)))"

text \<open>
  \<open>str.replace(old, new)\<close> for a non-empty \<open>old\<close> (the two callers pass \<open>{PORT}\<close> and
  \<open>{NUM_PLAYERS}\<close>).
\<close>

function replace_all :: "string \<Rightarrow> string \<Rightarrow> string \<Rightarrow> string" where
  "replace_all old new s =
     (if old = [] \<or> s = [] then s
      else if take (length old) s = old then new @ replace_all old new (drop (length old) s)
      else hd s # replace_all old new (tl s))"
  by pat_completeness auto
termination
  by (relation "measure (\<lambda>(old, new, s). length s)") (auto simp: neq_Nil_conv)

text \<open>
  \<open>for arg in server_config['arguments']\<close>: a list gives its elements, a string its
  characters, an object its keys; anything else is not iterable. Each \<open>arg\<close> must be a
  string for \<open>arg.replace\<close>.
\<close>

definition iterate :: "jval \<Rightarrow> jval list option" where
  "iterate v =
     (case v of
        JList xs \<Rightarrow> Some xs
      | JStr cs \<Rightarrow> Some (map (\<lambda>c. JStr [c]) cs)
      | JObj d \<Rightarrow> Some (map (JStr \<circ> fst) d)
      | _ \<Rightarrow> None)"

fun substitute_args :: "string \<Rightarrow> string \<Rightarrow> jval list \<Rightarrow> jval list option" where
  "substitute_args port n [] = Some []"
| "substitute_args port n (JStr a # as) =
     (case substitute_args port n as of
        None \<Rightarrow> None
      | Some rest \<Rightarrow>
          Some (JStr (replace_all ''{NUM_PLAYERS}'' n (replace_all ''{PORT}'' port a)) # rest))"
| "substitute_args port n (_ # as) = None"

text \<open>
  The command of the game server, built after the port is allocated:
  \<open>[start_command, game_dir/entry_point] + arguments\<close>, or \<open>None\<close> for a raise.
\<close>

definition build_command :: "env \<Rightarrow> jval \<Rightarrow> string \<Rightarrow> int \<Rightarrow> nat \<Rightarrow> jval list option" where
  "build_command e game_info game_dir port n =
     (case item game_info ''server'' of
        Some (JObj sc) \<Rightarrow>
         (case map_of sc ''entry_point'' of
            Some (JStr ep) \<Rightarrow>
             (let cmd = [case map_of sc ''start_command'' of None \<Rightarrow> JStr ''python'' | Some c \<Rightarrow> c,
                         JStr (path_join game_dir ep)]
              in case map_of sc ''arguments'' of
                   None \<Rightarrow> Some cmd
                 | Some args \<Rightarrow>
                    (case iterate args of
                       None \<Rightarrow> None
                     | Some as \<Rightarrow>
                        (case substitute_args (py_str e (JInt port)) (py_str e (JInt (int n))) as of
                           None \<Rightarrow> None
                         | Some as' \<Rightarrow> Some (cmd @ as'))))
          | _ \<Rightarrow> None)
      | _ \<Rightarrow> None)"

text \<open>
  The second half of \<open>_handle_start_game\<close>, from the allocation of the port on: \<open>k\<close> is
  the key of the room, \<open>r\<close> the room with its version already floated.
\<close>

definition launch ::
  "env \<Rightarrow> lobby \<Rightarrow> string \<Rightarrow> room \<Rightarrow> jval \<Rightarrow> string \<Rightarrow> lobby \<times> outcome" where
  "launch e l k r game_info game_dir =
     (case find_available_port (bindable e) (next_game_port l) of
        (cursor, Inl err) \<Rightarrow>
          (l\<lparr>next_game_port := cursor\<rparr>, Reply [Msg (fail (''No available ports: '' @ err))])
      | (cursor, Inr port) \<Rightarrow>
         (let l1 = l\<lparr>next_game_port := cursor\<rparr>
          in case build_command e game_info game_dir port (length (players r)) of
               None \<Rightarrow> (l1, Raised [])
             | Some command \<Rightarrow>
                (let log_file_path = path_join logs_dir
                       (''game_'' @ py_str e (JInt port) @ ''_'' @ room_id r @ ''.log'');
                     failed = Reply [Msg (fail (''Failed to start server: '' @ spawn_error e))]
                 in case new_log e of
                      None \<Rightarrow> (l1, failed)
                    | Some h \<Rightarrow>
                       (case popen e command of
                          None \<Rightarrow>
                            (l1\<lparr>effects := effects l1 @ [OpenLog h log_file_path, ReleaseLog h]\<rparr>,
                             failed)
                        | Some p \<Rightarrow>
                           (case early_exit e of
                              Some code \<Rightarrow>
                               (put_room k
                                  (r\<lparr>status := Waiting, game_process := None, game_port := None\<rparr>)
                                  [OpenLog h log_file_path, Spawn p command, CloseLog h] l1,
                                Reply [Msg (fail (''Game server crashed on startup (exit '' @
                                   py_str e (JInt code) @ ''). Check server logs.''))])
                            | None \<Rightarrow>
                               (let r1 = r\<lparr>game_process := Some p, game_port := Some port,
                                           game_log_file := Some h, status := In_game\<rparr>
                                in (put_room k r1 [OpenLog h log_file_path, Spawn p command] l1,
                                    Reply [Msg [(''success'', JBool True),
                                                (''game_server'',
                                                   JObj [(''host'', JStr advertise_host),
                                                         (''port'', JInt port)]),
                                                (''game_name'', game_name r1),
                                                (''version'', version r1)]])))))))"

text \<open>
  The first half: the caller's room, the host check, the reset of a room whose game
  has ended, and the two Catalog lookups that float the version.
\<close>

definition handle_start_game :: "env \<Rightarrow> catalog \<Rightarrow> lobby \<Rightarrow> conn \<Rightarrow> catalog \<times> lobby \<times> outcome" where
  "handle_start_game e cat l s =
     (case find_room (user_id s) l of
        None \<Rightarrow> (cat, l, Reply [Msg (fail ''Not in any room'')])
      | Some (k, r) \<Rightarrow>
         if host_id r \<noteq> user_id s then (cat, l, Reply [Msg (fail ''Only host can start game'')])
         else if status r = In_game \<and> \<not> process_ended_retry e r then
           (cat, l, Reply [Msg (fail ''Game already started'')])
         else
          (let (r1, es) = (if status r = In_game then (reset_room r, close_log r) else (r, []));
               l1 = put_room k r1 es l;
               (cat1, game_result) = db_request e 0 cat
                  (find_one_request ''Game'' [(''_id'', game_id r1), (''status'', JStr ''active'')])
           in if \<not> success game_result then (cat1, l1, Reply [Msg (fail ''Game not found'')])
              else
               (case map_of game_result ''result'' of
                  None \<Rightarrow> (cat1, l1, Raised [])
                | Some game \<Rightarrow>
                   (case item game ''latest_version'' of
                      None \<Rightarrow> (cat1, l1, Raised [])
                    | Some latest_version \<Rightarrow>
                       (let r2 = r1\<lparr>version := latest_version\<rparr>;
                            l2 = put_room k r2 [] l1;
                            (cat2, version_result) = db_request e 1 cat1
                               (find_one_request ''Version''
                                  [(''game_id'', game_id r2), (''version'', latest_version)])
                        in if \<not> success version_result then
                             (cat2, l2, Reply [Msg (fail ''Game version not found'')])
                           else
                            (case map_of version_result ''result'' of
                               None \<Rightarrow> (cat2, l2, Raised [])
                             | Some version_info \<Rightarrow>
                                (case item version_info ''file_path'' of
                                   Some (JStr fp) \<Rightarrow>
                                    (let game_dir = path_join upload_dir fp
                                     in case manifest e game_dir of
                                          None \<Rightarrow> (cat2, l2, Raised [])
                                        | Some game_info \<Rightarrow>
                                           (let (l3, out) = launch e l2 k r2 game_info game_dir
                                            in (cat2, l3, out)))
                                 | _ \<Rightarrow> (cat2, l2, Raised []))))))))"

definition handle_check_game_status :: "env \<Rightarrow> lobby \<Rightarrow> conn \<Rightarrow> lobby \<times> outcome" where
  "handle_check_game_status e l s =
     (case find_room (user_id s) l of
        None \<Rightarrow> (l, Reply [Msg [(''success'', JBool True), (''game_started'', JBool False)]])
      | Some (k, r) \<Rightarrow>
         (let is_host = (user_id s = host_id r)
          in if status r = In_game then
               (if process_ended e r then
                  (put_room k (reset_room r) (close_log r) l,
                   Reply [Msg [(''success'', JBool True), (''game_started'', JBool False)]])
                else
                  (l, Reply [Msg [(''success'', JBool True),
                                  (''game_started'', JBool True),
                                  (''game_server'',
                                     JObj [(''host'', JStr advertise_host),
                                           (''port'', (case game_port r of
                                                         None \<Rightarrow> JNull | Some p \<Rightarrow> JInt p))]),
                                  (''game_name'', game_name r),
                                  (''version'', version r),
                                  (''room_id'', JStr (room_id r)),
                                  (''host_id'', host_id r),
                                  (''host_name'', host_name r),
                                  (''is_host'', JBool is_host),
                                  (''status'', JStr (status_str (status r)))]]))
             else
               (l, Reply [Msg [(''success'', JBool True),
                               (''game_started'', JBool False),
                               (''room_id'', JStr (room_id r)),
                               (''host_id'', host_id r),
                               (''host_name'', host_name r),
                               (''is_host'', JBool is_host),
                               (''status'', JStr (status_str (status r)))]])))"

definition handle_end_game :: "env \<Rightarrow> lobby \<Rightarrow> conn \<Rightarrow> lobby \<times> outcome" where
  "handle_end_game e l s =
     (case find_room (user_id s) l of
        None \<Rightarrow> (l, Reply [Msg [(''success'', JBool True), (''message'', JStr ''Not in any room'')]])
      | Some (k, r) \<Rightarrow>
         if status r \<noteq> In_game then
           (l, Reply [Msg [(''success'', JBool True), (''message'', JStr ''Game not in progress'')]])
         else
           (put_room k (reset_room r)
              ((case game_process r of
                  Some p \<Rightarrow> if poll e p 0 = PollNone then [Terminate p] else []
                | None \<Rightarrow> []) @ close_log r) l,
            Reply [Msg [(''success'', JBool True),
                        (''message'', JStr ''Game ended, room reset to waiting'')]]))"

subsection \<open>Reviews\<close>

text \<open>
  \<open>_handle_submit_review\<close>. The Game is looked up by name alone. \<open>1 <= rating <= 5\<close>
  raises when the rating is not a number.
\<close>

definition handle_submit_review ::
  "env \<Rightarrow> catalog \<Rightarrow> conn \<Rightarrow> doc \<Rightarrow> catalog \<times> outcome" where
  "handle_submit_review e cat s request =
     (let gname = dget request ''game_name'';
          rating = dget request ''rating'';
          comment = (case map_of request ''comment'' of None \<Rightarrow> JStr [] | Some c \<Rightarrow> c)
      in if \<not> truthy gname \<or> rating = JNull then
           (cat, Reply [Msg (fail ''Game name and rating required'')])
         else case py_num rating of
           None \<Rightarrow> (cat, Raised [])
         | Some n \<Rightarrow>
            if \<not> (1 \<le> n \<and> n \<le> 5) then (cat, Reply [Msg (fail ''Rating must be 1-5'')])
            else
             (let (cat1, game_result) = db_request e 0 cat
                    (find_one_request ''Game'' [(''name'', gname)])
              in if \<not> success game_result then (cat1, Reply [Msg (fail ''Game not found'')])
                 else
                  (case map_of game_result ''result'' of
                     None \<Rightarrow> (cat1, Raised [])
                   | Some game \<Rightarrow>
                      (case item game ''_id'' of
                         None \<Rightarrow> (cat1, Raised [])
                       | Some gid \<Rightarrow>
                          (let (cat2, result) = db_request e 1 cat1
                                 (insert_request ''Review''
                                    [(''game_id'', gid),
                                     (''player_id'', user_id s),
                                     (''player_name'', username s),
                                     (''rating'', rating),
                                     (''comment'', comment)])
                           in if success result then
                                (cat2, Reply [Msg [(''success'', JBool True),
                                                   (''message'', JStr ''Review submitted'')]])
                              else (cat2, Reply [Msg (fail ''Failed to submit review'')]))))))"

subsection \<open>Dispatch and connections\<close>

text \<open>\<open>_process_request\<close> of the Lobby.\<close>

definition process_request ::
  "env \<Rightarrow> catalog \<Rightarrow> lobby \<Rightarrow> conn \<Rightarrow> doc \<Rightarrow> catalog \<times> lobby \<times> conn \<times> outcome" where
  "process_request e cat l s request =
     (let action = dget request ''action''
      in if action = JStr ''register'' then
           (let (cat', out) = handle_register e cat request in (cat', l, s, out))
         else if action = JStr ''login'' then handle_login e cat l s request
         else if \<not> logged_in s then (cat, l, s, Reply [Msg (fail ''Not logged in'')])
         else if action = JStr ''list_games'' then
           (let (cat', out) = handle_list_games e cat in (cat', l, s, out))
         else if action = JStr ''game_info'' then
           (let (cat', out) = handle_game_info e cat request in (cat', l, s, out))
         else if action = JStr ''download_game'' then
           (let (cat', out) = handle_download_game e cat request in (cat', l, s, out))
         else if action = JStr ''list_rooms'' then (cat, l, s, handle_list_rooms l)
         else if action = JStr ''create_room'' then
           (let (cat', l', out) = handle_create_room e cat l s request in (cat', l', s, out))
         else if action = JStr ''join_room'' then
           (let (l', out) = handle_join_room l s request in (cat, l', s, out))
         else if action = JStr ''leave_room'' then
           (let (l', out) = handle_leave_room e l s in (cat, l', s, out))
         else if action = JStr ''start_game'' then
           (let (cat', l', out) = handle_start_game e cat l s in (cat', l', s, out))
         else if action = JStr ''check_game_status'' then
           (let (l', out) = handle_check_game_status e l s in (cat, l', s, out))
         else if action = JStr ''end_game'' then
           (let (l', out) = handle_end_game e l s in (cat, l', s, out))
         else if action = JStr ''submit_review'' then
           (let (cat', out) = handle_submit_review e cat s request in (cat', l, s, out))
         else if action = JStr ''logout'' then
           (cat, cleanup_session s l, s\<lparr>logged_in := False\<rparr>,
            Reply [Msg [(''success'', JBool True)]])
         else (cat, l, s, Reply [Msg (fail ''Unknown action'')]))"

text \<open>
  The \<open>finally\<close> block of \<open>_handle_client\<close>, run when the client disconnects, sends an
  empty message, or a handler raises.
\<close>

definition disconnect :: "lobby \<Rightarrow> conn \<Rightarrow> lobby" where
  "disconnect l s = (if logged_in s then cleanup_session s l else l)"

text \<open>
  One message on a connection: the new state and whether the connection stays open.
\<close>

definition handle_message ::
  "env \<Rightarrow> catalog \<Rightarrow> lobby \<Rightarrow> conn \<Rightarrow> doc \<Rightarrow> catalog \<times> lobby \<times> conn \<times> outcome \<times> bool" where
  "handle_message e cat l s message =
     (if message = [] then (cat, disconnect l s, s, Reply [], False)
      else case process_request e cat l s message of
        (cat', l', s', Reply fs) \<Rightarrow> (cat', l', s', Reply fs, True)
      | (cat', l', s', Raised fs) \<Rightarrow> (cat', disconnect l' s', s', Raised fs, False))"


section \<open>Developer gateway: upload (server/developer\_server.py, common/validate\_game.py)\<close>

text \<open>
  The package store is a map from a directory path to the files of that directory
  (relative path and content); a directory exists when it is a key. Directories are
  taken not to nest, and a received path to stay inside the staging directory.
\<close>

type_synonym files = "(string \<times> string) list"
type_synonym store = "(string \<times> files) list"

text \<open>
  What an upload reads from outside: the Catalog link for the k-th request, the uuids
  and the clock, the uuid of the staging directory, \<open>json.load\<close> and the text of its
  error, the text of any other exception, \<open>str\<close> of a value, whether a path outside the
  store exists, the message that should carry \<open>file_count\<close> (any JSON value; \<open>None\<close> when
  the receive fails) and, per announced file, the file-info message (any JSON value;
  \<open>None\<close> when the receive fails) and the content of the file frame (\<open>None\<close> when
  \<open>receive_file\<close> returns \<open>False\<close>: the frame is cut short or the file cannot be written).
\<close>

record genv =
  g_db_up :: "nat \<Rightarrow> bool"
  g_db_error :: string
  g_now :: string
  g_fresh :: "nat \<Rightarrow> string"
  temp_uuid :: string
  parse_json :: "string \<Rightarrow> jval option"
  json_error :: string
  exc_text :: string
  g_py_str :: "jval \<Rightarrow> string"
  outside_exists :: "string \<Rightarrow> bool"
  file_msg :: "jval option"
  incoming :: "(jval option \<times> string option) list"

definition g_db_request :: "genv \<Rightarrow> nat \<Rightarrow> catalog \<Rightarrow> doc \<Rightarrow> catalog \<times> doc" where
  "g_db_request e k cat request =
     db_call (g_db_up e k) (g_db_error e) (g_fresh e k) (g_now e) cat request"

text \<open>\<open>key in value\<close>: membership in a dict, a list or a string; other values raise.\<close>

fun contains_str :: "string \<Rightarrow> string \<Rightarrow> bool" where
  "contains_str k [] = (k = [])"
| "contains_str k (c # cs) = (take (length k) (c # cs) = k \<or> contains_str k cs)"

definition py_in :: "string \<Rightarrow> jval \<Rightarrow> bool option" where
  "py_in k v =
     (case v of
        JObj d \<Rightarrow> Some (map_of d k \<noteq> None)
      | JList xs \<Rightarrow> Some (JStr k \<in> set xs)
      | JStr s \<Rightarrow> Some (contains_str k s)
      | _ \<Rightarrow> None)"

text \<open>
  \<open>os.path.exists(os.path.join(game_dir, entry_point))\<close> for a staged directory with
  the given files: a file, a directory above a file, the directory itself, or for an
  absolute entry point whatever is outside the store.
\<close>

definition entry_exists :: "genv \<Rightarrow> files \<Rightarrow> string \<Rightarrow> bool" where
  "entry_exists e fs ep =
     (if ep \<noteq> [] \<and> hd ep = CHR ''/'' then outside_exists e ep
      else ep = [] \<or> list_ex (\<lambda>(p, c). p = ep \<or> take (length ep + 1) p = ep @ ''/'') fs)"

datatype validation = Valid jval | Invalid string | ValidationRaised

text \<open>The loop over \<open>required_fields\<close>: the first missing field, or a raise.\<close>

fun missing_field :: "jval \<Rightarrow> string list \<Rightarrow> string option option" where
  "missing_field gi [] = Some None"
| "missing_field gi (f # fs) =
     (case py_in f gi of
        None \<Rightarrow> None
      | Some False \<Rightarrow> Some (Some f)
      | Some True \<Rightarrow> missing_field gi fs)"

text \<open>The check of the \<open>server\<close> or \<open>client\<close> section: \<open>None\<close> when it passes.\<close>

definition check_section :: "genv \<Rightarrow> files \<Rightarrow> jval \<Rightarrow> string \<Rightarrow> string \<Rightarrow> validation option" where
  "check_section e fs gi sect label =
     (case py_in sect gi of
        None \<Rightarrow> Some ValidationRaised
      | Some False \<Rightarrow> Some (Invalid (''Missing '' @ [CHR 0x27] @ sect @ [CHR 0x27] @ '' configuration''))
      | Some True \<Rightarrow>
         (case item gi sect of
            None \<Rightarrow> Some ValidationRaised
          | Some config \<Rightarrow>
             (case py_in ''entry_point'' config of
                None \<Rightarrow> Some ValidationRaised
              | Some False \<Rightarrow> Some (Invalid (''Missing '' @ sect @ ''.entry_point''))
              | Some True \<Rightarrow>
                 (case item config ''entry_point'' of
                    Some (JStr ep) \<Rightarrow>
                      if \<not> entry_exists e fs ep then
                        Some (Invalid (label @ '' entry point not found: '' @ ep))
                      else None
                  | _ \<Rightarrow> Some ValidationRaised))))"

definition validate_game_package :: "genv \<Rightarrow> files \<Rightarrow> validation" where
  "validate_game_package e fs =
     (case map_of fs ''game_info.json'' of
        None \<Rightarrow> Invalid ''Missing game_info.json''
      | Some content \<Rightarrow>
         (case parse_json e content of
            None \<Rightarrow> Invalid (''Invalid JSON in game_info.json: '' @ json_error e)
          | Some gi \<Rightarrow>
             (case missing_field gi
                     [''name'', ''version'', ''description'', ''min_players'', ''max_players''] of
                None \<Rightarrow> ValidationRaised
              | Some (Some f) \<Rightarrow> Invalid (''Missing required field: '' @ f)
              | Some None \<Rightarrow>
                 (case check_section e fs gi ''server'' ''Server'' of
                    Some v \<Rightarrow> v
                  | None \<Rightarrow>
                     (case check_section e fs gi ''client'' ''Client'' of
                        Some v \<Rightarrow> v
                      | None \<Rightarrow> Valid gi)))))"

text \<open>
  The receive loop \<open>for i in range(file_count)\<close>: each round reads a file-info message
  and a file frame into the staging directory; the first failure raises with its text.
  A file is kept under its path relative to the staging directory; where a path that
  leaves the staging directory (an absolute one, or one through \<open>..\<close>) would write is
  not part of the store.
\<close>

fun receive_files ::
  "genv \<Rightarrow> nat \<Rightarrow> (jval option \<times> string option) list \<Rightarrow> files \<Rightarrow> string + files" where
  "receive_files e 0 inc fs = Inr fs"
| "receive_files e (Suc n) [] fs = Inl ''Failed to receive file info''"
| "receive_files e (Suc n) ((info, content) # rest) fs =
     (case info of
        None \<Rightarrow> Inl ''Failed to receive file info''
      | Some fi \<Rightarrow>
         if \<not> truthy fi then Inl ''Failed to receive file info''
         else case item fi ''path'' of
           Some (JStr rel_path) \<Rightarrow>
            (case content of
               None \<Rightarrow> Inl (''Failed to receive file: '' @ rel_path)
             | Some c \<Rightarrow>
                if rel_path = [] then Inl (''Failed to receive file: '' @ rel_path)
                else receive_files e n rest (AList.update rel_path c fs))
         | _ \<Rightarrow> Inl (exc_text e))"

definition get_default :: "jval \<Rightarrow> string \<Rightarrow> jval \<Rightarrow> jval" where
  "get_default v k dflt = (case item v k of None \<Rightarrow> dflt | Some x \<Rightarrow> x)"

text \<open>
  The \<open>try\<close> block of \<open>_handle_upload_game\<close>: receive, validate, move the staging
  directory to its final place, insert the Game and the Version. \<open>Inl\<close> is the text of
  the exception that leaves the block, with the Catalog and the store as they are then.
\<close>

definition upload_body ::
  "genv \<Rightarrow> catalog \<Rightarrow> store \<Rightarrow> conn \<Rightarrow> string \<Rightarrow> string \<Rightarrow> jval \<Rightarrow> catalog \<times> store \<times> (string + string)" where
  "upload_body e cat st s gname temp_dir file_count =
     (case py_num file_count of
        None \<Rightarrow> (cat, st, Inl (exc_text e))
      | Some n \<Rightarrow>
         (case receive_files e (nat n) (incoming e)
                 (case map_of st temp_dir of None \<Rightarrow> [] | Some fs \<Rightarrow> fs) of
            Inl err \<Rightarrow> (cat, st, Inl err)
          | Inr fs \<Rightarrow>
             (let st1 = AList.update temp_dir fs st
              in case validate_game_package e fs of
                   Invalid err \<Rightarrow> (cat, st1, Inl (''Invalid game package: '' @ err))
                 | ValidationRaised \<Rightarrow> (cat, st1, Inl (exc_text e))
                 | Valid gi \<Rightarrow>
                    (case item gi ''version'' of
                       None \<Rightarrow> (cat, st1, Inl (exc_text e))
                     | Some ver \<Rightarrow>
                        (let final_dir_name = gname @ ''_'' @ g_py_str e ver;
                             final_dir = path_join upload_dir final_dir_name;
                             st2 = AList.delete final_dir st1
                         in case map_of st2 temp_dir of
                              None \<Rightarrow> (cat, st2, Inl (exc_text e))
                            | Some staged \<Rightarrow>
                               (let st3 = AList.update final_dir staged (AList.delete temp_dir st2);
                                    (cat1, game_result) = g_db_request e 1 cat
                                      (insert_request ''Game''
                                         [(''name'', JStr gname),
                                          (''developer_id'', user_id s),
                                          (''developer_name'', username s),
                                          (''latest_version'', ver),
                                          (''description'', get_default gi ''description'' (JStr [])),
                                          (''min_players'', get_default gi ''min_players'' (JInt 2)),
                                          (''max_players'', get_default gi ''max_players'' (JInt 2)),
                                          (''status'', JStr ''active'')])
                                in if \<not> success game_result then
                                     (cat1, st3, Inl ''Failed to save game to database'')
                                   else case map_of game_result ''id'' of
                                     None \<Rightarrow> (cat1, st3, Inl (exc_text e))
                                   | Some gid \<Rightarrow>
                                      (let (cat2, version_result) = g_db_request e 2 cat1
                                             (insert_request ''Version''
                                                [(''game_id'', gid),
                                                 (''version'', ver),
                                                 (''file_path'', JStr final_dir_name)])
                                       in (cat2, st3,
                                           Inr (''Game \"'' @ gname @ ''\" v'' @ g_py_str e ver @
                                                '' uploaded successfully'')))))))))"

text \<open>
  \<open>_handle_upload_game\<close>: the name check, the ready signal, the file count, the staging
  directory, the \<open>try\<close> block and its \<open>except\<close>, which removes the staging directory if
  it exists and answers with the text of the exception. A file-count message that is
  missing or falsy (\<open>{}\<close>, \<open>null\<close>) ends the handler with \<open>return None\<close>, so nothing is sent
  after the ready signal; a truthy one that is not an object raises at \<open>.get\<close>.
\<close>

definition ready :: frame where
  "ready = Msg [(''success'', JBool True), (''message'', JStr ''Ready to receive files'')]"

definition staging_dir :: "genv \<Rightarrow> string" where
  "staging_dir e = path_join upload_dir (''temp_'' @ take 8 (temp_uuid e))"

definition handle_upload_game ::
  "genv \<Rightarrow> catalog \<Rightarrow> store \<Rightarrow> conn \<Rightarrow> doc \<Rightarrow> catalog \<times> store \<times> outcome" where
  "handle_upload_game e cat st s request =
     (case get_stripped request ''game_name'' of
        None \<Rightarrow> (cat, st, Raised [])
      | Some gname \<Rightarrow>
         if gname = [] then (cat, st, Reply [Msg (fail ''Game name required'')])
         else
          (let (cat1, check) = g_db_request e 0 cat
                 (find_one_request ''Game'' [(''name'', JStr gname)])
           in if success check then (cat1, st, Reply [Msg (fail ''Game name already exists'')])
              else case file_msg e of
                None \<Rightarrow> (cat1, st, Reply [ready])
              | Some (JObj fm) \<Rightarrow>
                 if fm = [] then (cat1, st, Reply [ready])
                 else
                  (let file_count = (case map_of fm ''file_count'' of None \<Rightarrow> JInt 0 | Some v \<Rightarrow> v)
                   in if py_eq file_count (JInt 0) then
                        (cat1, st, Reply [ready, Msg (fail ''No files to upload'')])
                      else
                       (let temp_dir = staging_dir e;
                            st1 = (if map_of st temp_dir = None then st @ [(temp_dir, [])] else st)
                        in case upload_body e cat1 st1 s gname temp_dir file_count of
                             (cat2, st2, Inr msg) \<Rightarrow>
                               (cat2, st2, Reply [ready, Msg [(''success'', JBool True),
                                                               (''message'', JStr msg)]])
                           | (cat2, st2, Inl err) \<Rightarrow>
                               (cat2, AList.delete temp_dir st2, Reply [ready, Msg (fail err)])))
              | Some fm \<Rightarrow>
                 if truthy fm then (cat1, st, Raised [ready]) else (cat1, st, Reply [ready])))"

text \<open>
  The Catalog always has its five collections; the ids of the documents are the
  truthy, hashable values that \<open>_handle_insert\<close> uses as keys.
\<close>

definition catalog_wf :: "catalog \<Rightarrow> bool" where
  "catalog_wf cat = (map fst cat = collection_names)"

definition ids_ok :: "catalog \<Rightarrow> bool" where
  "ids_ok cat = (\<forall>(c, coll) \<in> set cat. \<forall>(i, d) \<in> set coll. truthy i \<and> hashable i)"



definition sample_catalog :: catalog where
  "sample_catalog =
     [(''User'', []),
      (''Game'', [(JStr ''g1'', [(''name'', JStr ''chat''), (''_id'', JStr ''g1''),
                                 (''created_at'', JStr ''t0'')])]),
      (''Version'', []), (''Room'', []), (''Review'', [])]"

text \<open>A sample world: one player, one two-player game with one version.\<close>

definition bob_doc :: doc where
  "bob_doc = [(''username'', JStr ''bob''), (''password_hash'', JStr ''h:pw''),
              (''account_type'', JStr ''player''), (''_id'', JStr ''u1'')]"

definition chat_doc :: "jval \<Rightarrow> string \<Rightarrow> doc" where
  "chat_doc maxp st = [(''name'', JStr ''chat''), (''latest_version'', JStr ''1.0''),
               (''max_players'', maxp), (''status'', JStr st), (''_id'', JStr ''g1'')]"

definition world :: "jval \<Rightarrow> string \<Rightarrow> catalog" where
  "world maxp st =
     [(''User'', [(JStr ''u1'', bob_doc)]),
      (''Game'', [(JStr ''g1'', chat_doc maxp st)]),
      (''Version'', [(JStr ''v1'', [(''game_id'', JStr ''g1''), (''version'', JStr ''1.0''),
                                    (''file_path'', JStr ''chat_1.0''), (''_id'', JStr ''v1'')])]),
      (''Room'', []), (''Review'', [])]"

definition sample_env :: env where
  "sample_env =
     \<lparr>db_up = (\<lambda>k. True), db_error = ''refused'', now = ''t1'', fresh_id = ''r1'',
      new_uuid = ''room0001-aaaa'', hash_password = (\<lambda>p. ''h:'' @ p),
      poll = (\<lambda>p k. PollNone), bindable = (\<lambda>p. True),
      manifest = (\<lambda>d. Some (JObj [(''server'', JObj [(''entry_point'', JStr ''game_server.py'')])])),
      list_files = (\<lambda>d. None), py_str = (\<lambda>v. ''N''), round1 = (\<lambda>t n. JInt 0),
      new_log = Some 3, popen = (\<lambda>c. Some 7), early_exit = None, spawn_error = ''failed''\<rparr>"


definition conn_bob :: conn where
  "conn_bob = \<lparr>logged_in = True, user_id = JStr ''u1'', username = JStr ''bob''\<rparr>"

definition lobby1 :: lobby where
  "lobby1 = init_lobby\<lparr>sessions := [(JStr ''u1'', JStr ''bob'')]\<rparr>"


definition room0 :: "jval \<Rightarrow> room" where
  "room0 maxp =
     \<lparr>room_id = ''room0001'', game_name = JStr ''chat'', game_id = JStr ''g1'',
      version = JStr ''1.0'', host_id = JStr ''u1'', host_name = JStr ''bob'',
      players = [JStr ''u1''], max_players = maxp, status = Waiting,
      game_process = None, game_port = None, game_log_file = None\<rparr>"

definition lobby2 :: "jval \<Rightarrow> lobby" where
  "lobby2 maxp = lobby1\<lparr>rooms := [(''room0001'', room0 maxp)]\<rparr>"

definition sample_log :: "effect list" where
  "sample_log =
     [OpenLog 3 ''game_server_logs/game_N_room0001.log'',
      Spawn 7 [JStr ''python'', JStr ''uploaded_games/chat_1.0/game_server.py'']]"

definition lobby3 :: lobby where
  "lobby3 =
     lobby1\<lparr>rooms := [(''room0001'',
                (room0 (JInt 2))\<lparr>status := In_game, game_process := Some 7,
                                   game_port := Some 5000, game_log_file := Some 3\<rparr>)],
            next_game_port := 5001, effects := sample_log\<rparr>"

text \<open>
  The invariants of the room table. A room keeps its host among its players, is never
  empty, lists a player once, and holds at most \<open>max_players\<close> players unless it holds
  its creator alone; the room ids are distinct and no user is in two rooms.
\<close>

definition capacity_ok :: "room \<Rightarrow> bool" where
  "capacity_ok r =
     (length (players r) \<le> 1 \<or>
      (case py_num (max_players r) of
         Some m \<Rightarrow> int (length (players r)) \<le> m
       | None \<Rightarrow> False))"

definition room_inv :: "room \<Rightarrow> bool" where
  "room_inv r =
     (host_id r \<in> set (players r) \<and> players r \<noteq> [] \<and> distinct (players r) \<and> capacity_ok r)"

definition rooms_inv :: "(string \<times> room) list \<Rightarrow> bool" where
  "rooms_inv rs =
     (distinct (map fst rs) \<and>
      (\<forall>(k, r) \<in> set rs. room_inv r) \<and>
      (\<forall>(k, r) \<in> set rs. \<forall>(k', r') \<in> set rs.
          set (players r) \<inter> set (players r') \<noteq> {} \<longrightarrow> k = k'))"

definition lobby_inv :: "lobby \<Rightarrow> bool" where
  "lobby_inv l = (rooms_inv (rooms l) \<and> distinct (map fst (sessions l)))"

definition review_chat :: doc where
  "review_chat = [(''action'', JStr ''submit_review''), (''game_name'', JStr ''chat''),
                  (''rating'', JInt 5), (''comment'', JStr ''fun'')]"

text \<open>The sample world after the developer has published version 1.1 of the game.\<close>

definition world_updated :: catalog where
  "world_updated =
     [(''User'', [(JStr ''u1'', bob_doc)]),
      (''Game'', [(JStr ''g1'', [(''name'', JStr ''chat''), (''latest_version'', JStr ''1.1''),
                                 (''max_players'', JInt 2), (''status'', JStr ''active''),
                                 (''_id'', JStr ''g1'')])]),
      (''Version'', [(JStr ''v1'', [(''game_id'', JStr ''g1''), (''version'', JStr ''1.0''),
                                    (''file_path'', JStr ''chat_1.0''), (''_id'', JStr ''v1'')]),
                     (JStr ''v2'', [(''game_id'', JStr ''g1''), (''version'', JStr ''1.1''),
                                    (''file_path'', JStr ''chat_1.1''), (''_id'', JStr ''v2'')])]),
      (''Room'', []), (''Review'', [])]"

definition reply_updated :: doc where
  "reply_updated =
     [(''success'', JBool True),
      (''game_server'', JObj [(''host'', JStr advertise_host), (''port'', JInt 5000)]),
      (''game_name'', JStr ''chat''), (''version'', JStr ''1.1'')]"

definition lobby3_updated :: lobby where
  "lobby3_updated =
     lobby1\<lparr>rooms := [(''room0001'',
                (room0 (JInt 2))\<lparr>version := JStr ''1.1'', status := In_game,
                                   game_process := Some 7, game_port := Some 5000,
                                   game_log_file := Some 3\<rparr>)],
            next_game_port := 5001,
            effects := [OpenLog 3 ''game_server_logs/game_N_room0001.log'',
                        Spawn 7 [JStr ''python'', JStr ''uploaded_games/chat_1.1/game_server.py'']]\<rparr>"

section \<open>Properties\<close>

subsection \<open>Port allocator\<close>

lemma find_upto_Some:
  assumes "find P [i..j] = Some p"
  shows "i \<le> p \<and> p \<le> j \<and> P p \<and> (\<forall>q. i \<le> q \<and> q < p \<longrightarrow> \<not> P q)"
proof -
  from assms obtain n where n: "n < length [i..j]" "P ([i..j] ! n)" "p = [i..j] ! n"
    "\<forall>m<n. \<not> P ([i..j] ! m)"
    by (auto simp: find_Some_iff)
  from n(1) have nj: "i + int n \<le> j" by simp
  then have pn: "p = i + int n" using n(3) by simp
  have "\<not> P q" if "i \<le> q" "q < p" for q
  proof -
    have "nat (q - i) < n" using that pn by linarith
    moreover have "[i..j] ! nat (q - i) = q" using that pn nj by simp
    ultimately show ?thesis using n(4) by metis
  qed
  with n(2) pn nj show ?thesis by auto
qed

lemma find_upto_None:
  "find P [i..j] = None \<longleftrightarrow> (\<forall>q. i \<le> q \<and> q \<le> j \<longrightarrow> \<not> P q)"
  by (auto simp: find_None_iff)

lemma fap_success:
  assumes "find_available_port bind cursor = (c', Inr p)"
  shows "c' = p + 1 \<and> cursor \<le> p \<and> p \<le> 5099 \<and> bind p \<and> (\<forall>q. cursor \<le> q \<and> q < p \<longrightarrow> \<not> bind q)"
  using assms find_upto_Some[of bind cursor 5099]
  by (auto simp: find_available_port_def split: option.splits)

lemma fap_failure:
  assumes "find_available_port bind cursor = (c', Inl e)"
  shows "c' = 5000 \<and> (\<forall>q. cursor \<le> q \<and> q \<le> 5099 \<longrightarrow> \<not> bind q)"
  using assms find_upto_None[of bind cursor 5099]
  by (auto simp: find_available_port_def split: option.splits)

lemma allocate_many_ok:
  "allocate_many binds k n cursor = (c', ps, True) \<Longrightarrow>
     length ps = n \<and> sorted_wrt (<) ps \<and> (\<forall>p \<in> set ps. cursor \<le> p \<and> p < c') \<and>
     cursor + int n \<le> c' \<and> (n > 0 \<longrightarrow> c' \<le> 5100)"
proof (induction n arbitrary: k cursor c' ps)
  case 0
  then show ?case by simp
next
  case (Suc n)
  from Suc.prems obtain c1 p ps' where
    f: "find_available_port (binds k) cursor = (c1, Inr p)"
    and r: "allocate_many binds (Suc k) n c1 = (c', ps', True)"
    and ps: "ps = p # ps'"
    by (auto split: prod.splits sum.splits)
  from fap_success[OF f] have c1: "c1 = p + 1" "cursor \<le> p" "p \<le> 5099" by auto
  from Suc.IH[OF r] have ih: "length ps' = n" "sorted_wrt (<) ps'"
    "\<forall>q \<in> set ps'. c1 \<le> q \<and> q < c'" "c1 + int n \<le> c'" "n > 0 \<longrightarrow> c' \<le> 5100" by auto
  have "c' \<le> 5100"
  proof (cases n)
    case 0
    with r have "c' = c1" by simp
    with c1 show ?thesis by simp
  next
    case (Suc m)
    with ih show ?thesis by simp
  qed
  with ps c1 ih show ?case by auto
qed


text \<open>
  C4. A call of the port allocator returns the first port from the cursor up to 5099
  that can be bound and moves the cursor behind it; when there is none it resets the
  cursor to 5000 and fails. Back-to-back successful allocations give strictly
  increasing, pairwise distinct ports in the range, and after 100 of them from a cursor
  of at least 5000 the next call fails, whatever can be bound then.
\<close>

theorem port_allocator:
  "(find_available_port bind cursor = (c', Inr p) \<longrightarrow>
      c' = p + 1 \<and> cursor \<le> p \<and> p \<le> 5099 \<and> bind p \<and>
      (\<forall>q. cursor \<le> q \<and> q < p \<longrightarrow> \<not> bind q) \<and> (5000 \<le> cursor \<longrightarrow> 5000 \<le> p))
   \<and> ((\<exists>q. cursor \<le> q \<and> q \<le> 5099 \<and> bind q) \<longrightarrow>
        (\<exists>p. find_available_port bind cursor = (p + 1, Inr p)))
   \<and> ((\<forall>q. cursor \<le> q \<and> q \<le> 5099 \<longrightarrow> \<not> bind q) \<longrightarrow>
        (\<exists>e. find_available_port bind cursor = (5000, Inl e)))
   \<and> (allocate_many binds k n cursor = (c2, ps, True) \<longrightarrow>
        length ps = n \<and> sorted_wrt (<) ps \<and> distinct ps \<and> (\<forall>p \<in> set ps. cursor \<le> p \<and> p \<le> 5099))
   \<and> (5000 \<le> cursor \<and> allocate_many binds k 100 cursor = (c2, ps, True) \<longrightarrow>
        (\<exists>e. find_available_port bind' c2 = (5000, Inl e)))"
proof -
  have 1: "find_available_port bind cursor = (c', Inr p) \<longrightarrow>
      c' = p + 1 \<and> cursor \<le> p \<and> p \<le> 5099 \<and> bind p \<and>
      (\<forall>q. cursor \<le> q \<and> q < p \<longrightarrow> \<not> bind q) \<and> (5000 \<le> cursor \<longrightarrow> 5000 \<le> p)"
    using fap_success[of bind cursor c' p] by auto
  have 2: "(\<exists>q. cursor \<le> q \<and> q \<le> 5099 \<and> bind q) \<longrightarrow>
        (\<exists>p. find_available_port bind cursor = (p + 1, Inr p))"
  proof
    assume "\<exists>q. cursor \<le> q \<and> q \<le> 5099 \<and> bind q"
    then have "find bind [cursor..5099] \<noteq> None" by (auto simp: find_None_iff)
    then show "\<exists>p. find_available_port bind cursor = (p + 1, Inr p)"
      by (auto simp: find_available_port_def)
  qed
  have 3: "(\<forall>q. cursor \<le> q \<and> q \<le> 5099 \<longrightarrow> \<not> bind q) \<longrightarrow>
        (\<exists>e. find_available_port bind cursor = (5000, Inl e))"
  proof
    assume "\<forall>q. cursor \<le> q \<and> q \<le> 5099 \<longrightarrow> \<not> bind q"
    then have "find bind [cursor..5099] = None" by (auto simp: find_None_iff)
    then show "\<exists>e. find_available_port bind cursor = (5000, Inl e)"
      by (simp add: find_available_port_def)
  qed
  have 4: "allocate_many binds k n cursor = (c2, ps, True) \<longrightarrow>
        length ps = n \<and> sorted_wrt (<) ps \<and> distinct ps \<and> (\<forall>p \<in> set ps. cursor \<le> p \<and> p \<le> 5099)"
  proof
    assume a: "allocate_many binds k n cursor = (c2, ps, True)"
    from allocate_many_ok[OF a]
    have *: "length ps = n" "sorted_wrt (<) ps" "\<forall>p \<in> set ps. cursor \<le> p \<and> p < c2"
      "n > 0 \<longrightarrow> c2 \<le> 5100" by auto
    have "distinct ps" using *(2) strict_sorted_iff by blast
    moreover have "\<forall>p \<in> set ps. cursor \<le> p \<and> p \<le> 5099"
    proof
      fix p assume p: "p \<in> set ps"
      then have "n > 0" using *(1) by (cases ps) auto
      with * p show "cursor \<le> p \<and> p \<le> 5099" by fastforce
    qed
    ultimately show "length ps = n \<and> sorted_wrt (<) ps \<and> distinct ps \<and>
        (\<forall>p \<in> set ps. cursor \<le> p \<and> p \<le> 5099)"
      using * by simp
  qed
  have 5: "5000 \<le> cursor \<and> allocate_many binds k 100 cursor = (c2, ps, True) \<longrightarrow>
        (\<exists>e. find_available_port bind' c2 = (5000, Inl e))"
  proof
    assume a: "5000 \<le> cursor \<and> allocate_many binds k 100 cursor = (c2, ps, True)"
    then have "cursor + int 100 \<le> c2" using allocate_many_ok by blast
    with a have "5100 \<le> c2" by simp
    then have "[c2..5099] = []" by simp
    then show "\<exists>e. find_available_port bind' c2 = (5000, Inl e)"
      by (simp add: find_available_port_def)
  qed
  from 1 2 3 4 5 show ?thesis by (intro conjI)
qed

lemma allocate_many_all_free:
  "cursor + int n \<le> 5100 \<Longrightarrow>
   allocate_many (\<lambda>k p. True) k n cursor = (cursor + int n, [cursor..cursor + int n - 1], True)"
proof (induction n arbitrary: k cursor)
  case 0
  then show ?case by simp
next
  case (Suc n)
  then have le: "cursor \<le> 5099" by simp
  then have "[cursor..5099] = cursor # [cursor + 1..5099]" by (simp add: upto_rec1)
  then have f: "find_available_port (\<lambda>p. True) cursor = (cursor + 1, Inr cursor)"
    by (simp add: find_available_port_def)
  have "allocate_many (\<lambda>k p. True) (Suc k) n (cursor + 1) =
        (cursor + 1 + int n, [cursor + 1..cursor + 1 + int n - 1], True)"
    using Suc.IH[of "cursor + 1" "Suc k"] Suc.prems by simp
  moreover have "[cursor..cursor + int (Suc n) - 1] = cursor # [cursor + 1..cursor + 1 + int n - 1]"
    by (simp add: upto_rec1 add.commute add.left_commute)
  ultimately show ?case using f by (simp add: add.commute add.left_commute)
qed

theorem port_allocator_witness:
  "find_available_port (\<lambda>p. p \<noteq> 5000) 5000 = (5002, Inr 5001)
   \<and> (\<exists>e. find_available_port (\<lambda>p. False) 5050 = (5000, Inl e))
   \<and> allocate_many (\<lambda>k p. True) 0 100 5000 = (5100, [5000..5099], True)
   \<and> distinct [5000..5099::int]
   \<and> (\<exists>e. find_available_port (\<lambda>p. True) 5100 = (5000, Inl e))"
proof -
  have a: "allocate_many (\<lambda>k p. True) 0 100 5000 = (5100, [5000..5099], True)"
    using allocate_many_all_free[of 5000 100 0] by simp
  have u: "[5000..5099] = 5000 # 5001 # [5002..5099::int]"
    by (simp add: upto_rec1)
  have h: "find_available_port (\<lambda>p. p \<noteq> 5000) 5000 = (5002, Inr 5001)"
    unfolding find_available_port_def u by simp
  note t1 = port_allocator[of "\<lambda>p. p \<noteq> 5000" 5000 5002 5001 "\<lambda>k p. True" 0 100 5100
      "[5000..5099]" "\<lambda>p. True"]
  from t1 a have d: "distinct [5000..5099::int]" by blast
  from t1 a have e: "\<exists>e. find_available_port (\<lambda>p. True) 5100 = (5000, Inl e)" by blast
  from port_allocator[of "\<lambda>p. False" 5050]
  have f: "\<exists>e. find_available_port (\<lambda>p. False) 5050 = (5000, Inl e)" by blast
  from h f a d e show ?thesis by blast
qed

subsection \<open>Catalog\<close>

lemma wf_lookup:
  assumes "catalog_wf cat"
  shows "(map_of cat c = None) = (c \<notin> set collection_names)"
proof -
  have "(map_of cat c = None) = (c \<notin> fst ` set cat)" by (simp add: map_of_eq_None_iff)
  also have "fst ` set cat = set (map fst cat)" by simp
  finally show ?thesis using assms by (simp add: catalog_wf_def del: set_map)
qed

lemma names_nonempty: "c \<in> set collection_names \<Longrightarrow> c \<noteq> []"
  by (auto simp: collection_names_def)





lemma map_fst_update_existing:
  "map_of al k = Some w \<Longrightarrow> map fst (AList.update k v al) = map fst al"
  by (induction al) (auto split: if_splits)

lemma ids_ok_entry:
  assumes "ids_ok cat" "map_of (get_collection cat c) i = Some old"
  shows "truthy i \<and> hashable i"
proof -
  from assms(2) obtain coll where c: "map_of cat c = Some coll" and i: "map_of coll i = Some old"
    by (auto simp: get_collection_def split: option.splits)
  from c have "(c, coll) \<in> set cat" by (rule map_of_SomeD)
  moreover from i have "(i, old) \<in> set coll" by (rule map_of_SomeD)
  ultimately show ?thesis using assms(1) by (fastforce simp: ids_ok_def)
qed

lemma handle_insert_hashable:
  assumes "truthy i" "hashable i" "dget data ''_id'' = i"
  shows "handle_insert uuid stamp cat c data =
     (AList.update c (AList.update i (AList.update ''created_at'' (JStr stamp)
         (AList.update ''_id'' i data)) (get_collection cat c)) cat,
      Some [(''success'', JBool True), (''id'', i)])"
  using assms by (cases i) (simp_all add: handle_insert_def hashable_def Let_def)

text \<open>
  C9. An insert whose data carries the \<open>_id\<close> of an existing document of the collection
  answers \<open>{success: true, id}\<close> with that id, replaces the document under that id by
  the new data stamped with \<open>created_at\<close>, and leaves the ids of the collection, its
  other documents and the other collections as they were: no error, no uuid id.
\<close>

theorem insert_existing_id_replaces:
  assumes "catalog_wf cat" and "ids_ok cat"
    and "c \<in> set collection_names"
    and "map_of (get_collection cat c) i = Some old"
    and "dget request ''action'' = JStr ''insert''"
    and "dget request ''collection'' = JStr c"
    and "map_of request ''data'' = Some (JObj data)"
    and "map_of data ''_id'' = Some i"
  shows "\<exists>cat'. db_process_request uuid stamp cat request
            = (cat', Some [(''success'', JBool True), (''id'', i)])
         \<and> map fst (get_collection cat' c) = map fst (get_collection cat c)
         \<and> map_of (get_collection cat' c) i
            = Some (AList.update ''created_at'' (JStr stamp) (AList.update ''_id'' i data))
         \<and> (\<forall>j. j \<noteq> i \<longrightarrow> map_of (get_collection cat' c) j = map_of (get_collection cat c) j)
         \<and> (\<forall>c'. c' \<noteq> c \<longrightarrow> get_collection cat' c' = get_collection cat c')"
proof -
  let ?new = "AList.update ''created_at'' (JStr stamp) (AList.update ''_id'' i data)"
  let ?coll = "get_collection cat c"
  let ?cat' = "AList.update c (AList.update i ?new ?coll) cat"
  have ti: "truthy i" "hashable i" using ids_ok_entry[OF assms(2,4)] by auto
  have di: "dget data ''_id'' = i" using assms(8) by (simp add: dget_def)
  obtain coll where ex: "map_of cat c = Some coll" using wf_lookup[OF assms(1), of c] assms(3) by auto
  have ne: "c \<noteq> []" using assms(3) by (rule names_nonempty)
  have run: "db_process_request uuid stamp cat request
            = (?cat', Some [(''success'', JBool True), (''id'', i)])"
    using ex ne assms(5,6,7) handle_insert_hashable[OF ti di]
    by (simp add: db_process_request_def)
  have g: "get_collection ?cat' c = AList.update i ?new ?coll"
    by (simp add: get_collection_def update_conv')
  have o: "get_collection ?cat' c' = get_collection cat c'" if "c' \<noteq> c" for c'
    using that by (simp add: get_collection_def update_conv')
  have k: "map fst (AList.update i ?new ?coll) = map fst ?coll"
    using assms(4) by (rule map_fst_update_existing)
  from run g o k show ?thesis by (auto simp: update_conv')
qed

theorem insert_existing_id_replaces_witness:
  "catalog_wf sample_catalog \<and> ids_ok sample_catalog
   \<and> db_process_request ''u1'' ''t1'' sample_catalog
        (insert_request ''Game'' [(''name'', JStr ''pong''), (''_id'', JStr ''g1'')])
      = ([(''User'', []),
          (''Game'', [(JStr ''g1'', [(''name'', JStr ''pong''), (''_id'', JStr ''g1''),
                                     (''created_at'', JStr ''t1'')])]),
          (''Version'', []), (''Room'', []), (''Review'', [])],
         Some [(''success'', JBool True), (''id'', JStr ''g1'')])"
proof -
  have wf: "catalog_wf sample_catalog"
    by (simp add: catalog_wf_def sample_catalog_def collection_names_def)
  have ok: "ids_ok sample_catalog"
    by (simp add: ids_ok_def sample_catalog_def hashable_def)
  have old: "map_of (get_collection sample_catalog ''Game'') (JStr ''g1'')
      = Some [(''name'', JStr ''chat''), (''_id'', JStr ''g1''), (''created_at'', JStr ''t0'')]"
    by (simp add: get_collection_def sample_catalog_def)
  from insert_existing_id_replaces[OF wf ok _ old, of
      "insert_request ''Game'' [(''name'', JStr ''pong''), (''_id'', JStr ''g1'')]"
      "[(''name'', JStr ''pong''), (''_id'', JStr ''g1'')]" "''u1''" "''t1''"]
  obtain cat' where
    "db_process_request ''u1'' ''t1'' sample_catalog
        (insert_request ''Game'' [(''name'', JStr ''pong''), (''_id'', JStr ''g1'')])
      = (cat', Some [(''success'', JBool True), (''id'', JStr ''g1'')])"
    by (auto simp: insert_request_def dget_def collection_names_def)
  moreover have "fst (db_process_request ''u1'' ''t1'' sample_catalog
        (insert_request ''Game'' [(''name'', JStr ''pong''), (''_id'', JStr ''g1'')]))
      = [(''User'', []),
          (''Game'', [(JStr ''g1'', [(''name'', JStr ''pong''), (''_id'', JStr ''g1''),
                                     (''created_at'', JStr ''t1'')])]),
          (''Version'', []), (''Room'', []), (''Review'', [])]"
    by (simp add: db_process_request_def insert_request_def dget_def sample_catalog_def
        handle_insert_def get_collection_def Let_def)
  ultimately show ?thesis using wf ok by simp
qed

subsection \<open>A sample run of the Lobby\<close>

lemmas catalog_defs = db_request_def db_call_def db_process_request_def find_one_request_def
  find_request_def insert_request_def dget_def handle_find_one_def handle_find_def
  handle_insert_def get_query_def get_collection_def matching_def success_def item_def
  fail_def Let_def




lemma first_port: "find_available_port (\<lambda>p. True) 5000 = (5001, Inr 5000)"
proof -
  have "[5000..5099] = 5000 # [5001..5099::int]" by (simp add: upto_rec1)
  then show ?thesis by (simp add: find_available_port_def)
qed

lemma replace_plain: "replace_all ''{PORT}'' n ''x'' = ''x''"
  by simp




text \<open>
  C2 (the code departs from the claim). Bob is logged in, is the only member and the
  host of a room whose game runs; the game process exits. His next
  \<open>check_game_status\<close> resets the room and answers with \<open>success\<close> and \<open>game_started\<close>
  only: the reply has no \<open>is_host\<close> field.
\<close>

theorem check_game_status_reset_omits_is_host:
  "handle_check_game_status (sample_env\<lparr>poll := \<lambda>p k. PollExit 0\<rparr>) lobby3 conn_bob =
     (lobby3\<lparr>rooms := [(''room0001'', room0 (JInt 2))], effects := sample_log @ [CloseLog 3]\<rparr>,
      Reply [Msg [(''success'', JBool True), (''game_started'', JBool False)]])
   \<and> map_of [(''success'', JBool True), (''game_started'', JBool False)] ''is_host'' = None"
  by (simp add: handle_check_game_status_def find_room_def process_ended_def put_room_def
      reset_room_def close_log_def lobby3_def lobby1_def init_lobby_def room0_def conn_bob_def
      sample_env_def)

subsection \<open>Invariants of the Lobby\<close>















lemma lobby_inv_fields [simp]:
  "lobby_inv (l\<lparr>next_game_port := c\<rparr>) = lobby_inv l"
  "lobby_inv (l\<lparr>effects := es\<rparr>) = lobby_inv l"
  by (simp_all add: lobby_inv_def)























subsection \<open>Requests to the Catalog; reviews of removed games\<close>

lemma matching_obj:
  "matching (JObj q) coll = Some (filter (\<lambda>(i, d). match_query d q) coll)"
  by (simp add: matching_def)

lemma wf_collection:
  assumes "catalog_wf cat" and "c \<in> set collection_names"
  shows "map_of cat c = Some (get_collection cat c)" and "c \<noteq> []"
proof -
  obtain coll where "map_of cat c = Some coll" using wf_lookup[OF assms(1), of c] assms(2) by auto
  then show "map_of cat c = Some (get_collection cat c)" by (simp add: get_collection_def)
  show "c \<noteq> []" using assms(2) by (rule names_nonempty)
qed

lemma find_one_result:
  assumes "catalog_wf cat" and "c \<in> set collection_names" and "db_up e k"
  shows "db_request e k cat (find_one_request c q) =
     (cat, case filter (\<lambda>(i, d). match_query d q) (get_collection cat c) of
             [] \<Rightarrow> fail ''Not found''
           | (i, d) # ms \<Rightarrow> [(''success'', JBool True), (''result'', JObj d)])"
  using wf_collection[OF assms(1,2)] assms(3)
  by (auto simp: db_request_def db_call_def db_process_request_def find_one_request_def dget_def
      handle_find_one_def get_query_def matching_obj fail_def split: list.splits)

lemma find_result:
  assumes "catalog_wf cat" and "c \<in> set collection_names" and "db_up e k"
  shows "db_request e k cat (find_request c q) =
     (cat, [(''success'', JBool True),
            (''results'', JList (map (JObj \<circ> snd)
                (filter (\<lambda>(i, d). match_query d q) (get_collection cat c))))])"
  using wf_collection[OF assms(1,2)] assms(3)
  by (simp add: db_request_def db_call_def db_process_request_def find_request_def dget_def
      handle_find_def get_query_def matching_obj)

lemma insert_result:
  assumes "catalog_wf cat" and "c \<in> set collection_names" and "db_up e k"
    and "map_of data ''_id'' = None"
  shows "db_request e k cat (insert_request c data) =
     (AList.update c (AList.update (JStr (fresh_id e))
          (AList.update ''created_at'' (JStr (now e)) (AList.update ''_id'' (JStr (fresh_id e)) data))
          (get_collection cat c)) cat,
      [(''success'', JBool True), (''id'', JStr (fresh_id e))])"
  using wf_collection[OF assms(1,2)] assms(3,4)
  by (simp add: db_request_def db_call_def db_process_request_def insert_request_def dget_def
      handle_insert_def Let_def)

lemma match_name_status:
  "match_query d [(''name'', n), (''status'', st)] =
     (match_query d [(''name'', n)] \<and> (\<exists>w. map_of d ''status'' = Some w \<and> py_eq w st))"
  by (auto split: option.splits)

text \<open>
  C10. \<open>submit_review\<close> looks the Game up by name alone. When the Catalog is up and every
  Game of the given name has status \<open>removed\<close>, a logged-in player's review with an
  integer rating from 1 to 5 succeeds and inserts a Review for the first Game of that
  name, while \<open>game_info\<close>, \<open>download_game\<close> and \<open>create_room\<close> for the same name answer
  \<open>Game not found\<close> and \<open>list_games\<close> lists no Game of that name.
\<close>

theorem review_of_removed_game:
  assumes wf: "catalog_wf cat"
    and up: "db_up e 0" "db_up e 1"
    and name: "dget request ''game_name'' = gname" "truthy gname"
    and rating: "dget request ''rating'' = JInt n" "1 \<le> n" "n \<le> 5"
    and game: "filter (\<lambda>(i, d). match_query d [(''name'', gname)]) (get_collection cat ''Game'')
                 = (i, g) # ms"
    and gid: "map_of g ''_id'' = Some gid"
    and removed: "\<forall>(j, d) \<in> set (get_collection cat ''Game'').
                    match_query d [(''name'', gname)] \<longrightarrow> map_of d ''status'' = Some (JStr ''removed'')"
  shows "handle_submit_review e cat s request =
           (AList.update ''Review''
              (AList.update (JStr (fresh_id e))
                 [(''game_id'', gid), (''player_id'', user_id s), (''player_name'', username s),
                  (''rating'', JInt n),
                  (''comment'', case map_of request ''comment'' of None \<Rightarrow> JStr [] | Some c \<Rightarrow> c),
                  (''_id'', JStr (fresh_id e)), (''created_at'', JStr (now e))]
                 (get_collection cat ''Review'')) cat,
            Reply [Msg [(''success'', JBool True), (''message'', JStr ''Review submitted'')]])
       \<and> handle_game_info e cat request = (cat, Reply [Msg (fail ''Game not found'')])
       \<and> handle_download_game e cat request = (cat, Reply [Msg (fail ''Game not found'')])
       \<and> handle_create_room e cat l s request =
           (cat, remove_user (user_id s) l, Reply [Msg (fail ''Game not found'')])
       \<and> (\<exists>gs :: (jval \<times> doc) list. handle_list_games e cat =
                 (cat, Reply [Msg [(''success'', JBool True),
                                   (''games'', JList (map (JObj \<circ> snd) gs))]])
              \<and> (\<forall>(j, d) \<in> set gs. \<not> match_query d [(''name'', gname)]))"
proof -
  have cg: "''Game'' \<in> set collection_names" and cr: "''Review'' \<in> set collection_names"
    by (simp_all add: collection_names_def)
  have lookup: "db_request e 0 cat (find_one_request ''Game'' [(''name'', gname)]) =
      (cat, [(''success'', JBool True), (''result'', JObj g)])"
    using find_one_result[OF wf cg up(1), of "[(''name'', gname)]"] game by simp
  have rn: "dget request ''rating'' \<noteq> JNull" using rating(1) by simp
  have 1: "handle_submit_review e cat s request =
           (AList.update ''Review''
              (AList.update (JStr (fresh_id e))
                 [(''game_id'', gid), (''player_id'', user_id s), (''player_name'', username s),
                  (''rating'', JInt n),
                  (''comment'', case map_of request ''comment'' of None \<Rightarrow> JStr [] | Some c \<Rightarrow> c),
                  (''_id'', JStr (fresh_id e)), (''created_at'', JStr (now e))]
                 (get_collection cat ''Review'')) cat,
            Reply [Msg [(''success'', JBool True), (''message'', JStr ''Review submitted'')]])"
    unfolding handle_submit_review_def
    using name rating lookup gid insert_result[OF wf cr up(2)]
    by (simp add: Let_def success_def dget_def item_def)
  have nf: "filter (\<lambda>(i, d). match_query d [(''name'', gname), (''status'', JStr ''active'')])
              (get_collection cat ''Game'') = []"
  proof -
    have "\<not> match_query d [(''name'', gname), (''status'', JStr ''active'')]"
      if "(j, d) \<in> set (get_collection cat ''Game'')" for j d
    proof (cases "match_query d [(''name'', gname)]")
      case True
      then have "map_of d ''status'' = Some (JStr ''removed'')" using removed that by blast
      then show ?thesis unfolding match_name_status by simp
    next
      case False
      then show ?thesis unfolding match_name_status by blast
    qed
    then show ?thesis by (auto simp: filter_empty_conv simp del: match_query.simps)
  qed
  have active: "db_request e 0 cat
        (find_one_request ''Game'' [(''name'', gname), (''status'', JStr ''active'')]) =
      (cat, fail ''Not found'')"
    using find_one_result[OF wf cg up(1), of "[(''name'', gname), (''status'', JStr ''active'')]"] nf
    by simp
  have ns: "\<not> success (fail ''Not found'')" by (simp add: success_def fail_def dget_def)
  have 2: "handle_game_info e cat request = (cat, Reply [Msg (fail ''Game not found'')])"
    unfolding handle_game_info_def using name active ns by (simp add: Let_def)
  have 3: "handle_download_game e cat request = (cat, Reply [Msg (fail ''Game not found'')])"
    unfolding handle_download_game_def using name active ns by (simp add: Let_def)
  have 4: "handle_create_room e cat l s request =
           (cat, remove_user (user_id s) l, Reply [Msg (fail ''Game not found'')])"
    unfolding handle_create_room_def using name active ns by (simp add: Let_def)
  let ?gs = "filter (\<lambda>(i, d). match_query d [(''status'', JStr ''active'')]) (get_collection cat ''Game'')"
  have lg: "handle_list_games e cat =
          (cat, Reply [Msg [(''success'', JBool True), (''games'', JList (map (JObj \<circ> snd) ?gs))]])"
    unfolding handle_list_games_def
    using find_result[OF wf cg up(1), of "[(''status'', JStr ''active'')]"]
    by (simp add: success_def dget_def)
  have ng: "\<forall>(j, d) \<in> set ?gs. \<not> match_query d [(''name'', gname)]"
  proof -
    have "\<not> match_query d [(''name'', gname)]"
      if "(j, d) \<in> set (get_collection cat ''Game'')" "match_query d [(''status'', JStr ''active'')]"
      for j d
    proof
      assume "match_query d [(''name'', gname)]"
      then have "map_of d ''status'' = Some (JStr ''removed'')" using removed that(1) by blast
      with that(2) show False by simp
    qed
    then show ?thesis by (auto simp del: match_query.simps)
  qed
  have 5: "\<exists>gs :: (jval \<times> doc) list. handle_list_games e cat =
                 (cat, Reply [Msg [(''success'', JBool True),
                                   (''games'', JList (map (JObj \<circ> snd) gs))]])
              \<and> (\<forall>(j, d) \<in> set gs. \<not> match_query d [(''name'', gname)])"
    by (rule exI[of _ ?gs], rule conjI, rule lg, rule ng)
  from 1 2 3 4 5 show ?thesis by (intro conjI)
qed

theorem review_of_removed_game_witness:
  "catalog_wf (world (JInt 2) ''removed'')
   \<and> get_collection (world (JInt 2) ''removed'') ''Game'' = [(JStr ''g1'', chat_doc (JInt 2) ''removed'')]
   \<and> map_of (chat_doc (JInt 2) ''removed'') ''status'' = Some (JStr ''removed'')
   \<and> snd (handle_submit_review sample_env (world (JInt 2) ''removed'') conn_bob review_chat) =
        Reply [Msg [(''success'', JBool True), (''message'', JStr ''Review submitted'')]]
   \<and> get_collection (fst (handle_submit_review sample_env (world (JInt 2) ''removed'') conn_bob
          review_chat)) ''Review'' =
        [(JStr ''r1'', [(''game_id'', JStr ''g1''), (''player_id'', JStr ''u1''),
                        (''player_name'', JStr ''bob''), (''rating'', JInt 5),
                        (''comment'', JStr ''fun''), (''_id'', JStr ''r1''),
                        (''created_at'', JStr ''t1'')])]
   \<and> handle_game_info sample_env (world (JInt 2) ''removed'') review_chat =
        (world (JInt 2) ''removed'', Reply [Msg (fail ''Game not found'')])
   \<and> handle_download_game sample_env (world (JInt 2) ''removed'') review_chat =
        (world (JInt 2) ''removed'', Reply [Msg (fail ''Game not found'')])
   \<and> snd (snd (handle_create_room sample_env (world (JInt 2) ''removed'') lobby1 conn_bob review_chat)) =
        Reply [Msg (fail ''Game not found'')]"
proof -
  let ?w = "world (JInt 2) ''removed''"
  have wf: "catalog_wf ?w" by (simp add: catalog_wf_def world_def collection_names_def)
  have g: "get_collection ?w ''Game'' = [(JStr ''g1'', chat_doc (JInt 2) ''removed'')]"
    by (simp add: get_collection_def world_def)
  have st: "map_of (chat_doc (JInt 2) ''removed'') ''status'' = Some (JStr ''removed'')"
    by (simp add: chat_doc_def)
  have f: "filter (\<lambda>(i, d). match_query d [(''name'', JStr ''chat'')]) (get_collection ?w ''Game'')
             = (JStr ''g1'', chat_doc (JInt 2) ''removed'') # []"
    unfolding g by (simp add: chat_doc_def)
  have rv: "get_collection ?w ''Review'' = []" by (simp add: get_collection_def world_def)
  have up: "db_up sample_env 0" "db_up sample_env 1" by (simp_all add: sample_env_def)
  have nm: "dget review_chat ''game_name'' = JStr ''chat''" "truthy (JStr ''chat'')"
    by (simp_all add: review_chat_def dget_def)
  have rt: "dget review_chat ''rating'' = JInt 5" "(1::int) \<le> 5" "(5::int) \<le> 5"
    by (simp_all add: review_chat_def dget_def)
  have gid: "map_of (chat_doc (JInt 2) ''removed'') ''_id'' = Some (JStr ''g1'')"
    by (simp add: chat_doc_def)
  have rem: "\<forall>(j, d) \<in> set (get_collection ?w ''Game'').
      match_query d [(''name'', JStr ''chat'')] \<longrightarrow> map_of d ''status'' = Some (JStr ''removed'')"
    unfolding g using st by simp
  have fields: "fresh_id sample_env = ''r1''" "now sample_env = ''t1''"
    "user_id conn_bob = JStr ''u1''" "username conn_bob = JStr ''bob''"
    "map_of review_chat ''comment'' = Some (JStr ''fun'')"
    by (simp_all add: sample_env_def conn_bob_def review_chat_def)
  note t = review_of_removed_game[OF wf up nm rt f gid rem, of conn_bob lobby1]
  have h: "handle_submit_review sample_env ?w conn_bob review_chat =
      (AList.update ''Review'' (AList.update (JStr ''r1'')
                       [(''game_id'', JStr ''g1''), (''player_id'', JStr ''u1''),
                        (''player_name'', JStr ''bob''), (''rating'', JInt 5),
                        (''comment'', case Some (JStr ''fun'') of None \<Rightarrow> JStr [] | Some c \<Rightarrow> c),
                        (''_id'', JStr ''r1''),
                        (''created_at'', JStr ''t1'')] []) ?w,
       Reply [Msg [(''success'', JBool True), (''message'', JStr ''Review submitted'')]])"
    using t[unfolded fields rv] by blast
  have i: "handle_game_info sample_env ?w review_chat = (?w, Reply [Msg (fail ''Game not found'')])"
    using t by blast
  have d: "handle_download_game sample_env ?w review_chat = (?w, Reply [Msg (fail ''Game not found'')])"
    using t by blast
  have c: "handle_create_room sample_env ?w lobby1 conn_bob review_chat =
       (?w, remove_user (user_id conn_bob) lobby1, Reply [Msg (fail ''Game not found'')])"
    using t by blast
  have r: "get_collection (fst (handle_submit_review sample_env ?w conn_bob review_chat)) ''Review'' =
        [(JStr ''r1'', [(''game_id'', JStr ''g1''), (''player_id'', JStr ''u1''),
                        (''player_name'', JStr ''bob''), (''rating'', JInt 5),
                        (''comment'', JStr ''fun''), (''_id'', JStr ''r1''),
                        (''created_at'', JStr ''t1'')])]"
    unfolding h by (simp add: get_collection_def update_conv')
  from wf g st h i d c r show ?thesis by simp
qed

subsection \<open>Version float of start\_game\<close>

lemma build_command_script:
  assumes "build_command e gi gd port n = Some cmd"
  shows "\<exists>sc ep start rest. item gi ''server'' = Some (JObj sc) \<and>
           map_of sc ''entry_point'' = Some (JStr ep) \<and>
           cmd = start # JStr (path_join gd ep) # rest"
  using assms unfolding build_command_def
  by (auto simp: Let_def split: option.splits jval.splits)

lemma not_success_fail [simp]: "\<not> success (fail msg)"
  by (simp add: success_def fail_def dget_def)

lemma launch_success:
  assumes "launch e l k r gi gd = (l', Reply [Msg resp])" and "success resp"
  shows "\<exists>cursor port cmd h p.
           find_available_port (bindable e) (next_game_port l) = (cursor, Inr port) \<and>
           build_command e gi gd port (length (players r)) = Some cmd \<and>
           new_log e = Some h \<and> popen e cmd = Some p \<and> early_exit e = None \<and>
           l' = put_room k (r\<lparr>game_process := Some p, game_port := Some port,
                              game_log_file := Some h, status := In_game\<rparr>)
                  [OpenLog h (path_join logs_dir
                      (''game_'' @ py_str e (JInt port) @ ''_'' @ room_id r @ ''.log'')),
                   Spawn p cmd]
                  (l\<lparr>next_game_port := cursor\<rparr>) \<and>
           resp = [(''success'', JBool True),
                   (''game_server'', JObj [(''host'', JStr advertise_host), (''port'', JInt port)]),
                   (''game_name'', game_name r), (''version'', version r)]"
  using assms unfolding launch_def
  by (auto simp: Let_def split: prod.splits sum.splits option.splits)

lemma map_of_put_room: "map_of (rooms (put_room k r es l)) k = Some r"
  by (simp add: put_room_def update_conv')

lemma effects_put_room: "effects (put_room k r es l) = effects l @ es"
  by (simp add: put_room_def)

text \<open>
  C7. A successful \<open>start_game\<close> has fetched the room's Game from the Catalog by id and
  status \<open>active\<close>, the Version of that Game's \<open>latest_version\<close>, and the manifest of that
  Version's directory; the process it spawns runs the entry point inside that
  directory, the room carries that \<open>latest_version\<close> afterwards and the reply advertises
  it, whatever version the room recorded before.
\<close>

theorem start_game_floats_version:
  assumes run: "handle_start_game e cat l s = (cat', l', Reply [Msg resp])" and ok: "success resp"
  shows "\<exists>k r cat1 game_result game lv version_result vinfo fp gi sc ep p start rest r'.
      find_room (user_id s) l = Some (k, r)
    \<and> db_request e 0 cat (find_one_request ''Game''
          [(''_id'', game_id r), (''status'', JStr ''active'')]) = (cat1, game_result)
    \<and> success game_result \<and> map_of game_result ''result'' = Some game
    \<and> item game ''latest_version'' = Some lv
    \<and> db_request e 1 cat1 (find_one_request ''Version''
          [(''game_id'', game_id r), (''version'', lv)]) = (cat', version_result)
    \<and> success version_result \<and> map_of version_result ''result'' = Some vinfo
    \<and> item vinfo ''file_path'' = Some (JStr fp)
    \<and> manifest e (path_join upload_dir fp) = Some gi
    \<and> item gi ''server'' = Some (JObj sc) \<and> map_of sc ''entry_point'' = Some (JStr ep)
    \<and> last (effects l') =
         Spawn p (start # JStr (path_join (path_join upload_dir fp) ep) # rest)
    \<and> map_of (rooms l') k = Some r' \<and> version r' = lv \<and> status r' = In_game
    \<and> game_process r' = Some p
    \<and> map_of resp ''version'' = Some lv"
  using run ok unfolding handle_start_game_def
  apply (clarsimp simp: Let_def split: option.splits prod.splits if_splits jval.splits)
   apply (drule (1) launch_success)
   apply clarsimp
   apply (drule build_command_script)
   apply (clarsimp simp: map_of_put_room effects_put_room reset_room_def)
  apply (drule (1) launch_success)
  apply clarsimp
  apply (drule build_command_script)
  apply (clarsimp simp: map_of_put_room effects_put_room)
  done

lemma start_updated:
  "handle_start_game sample_env world_updated (lobby2 (JInt 2)) conn_bob =
     (world_updated, lobby3_updated, Reply [Msg reply_updated])"
  by (simp add: handle_start_game_def launch_def build_command_def
      find_room_def put_room_def first_port path_join_def upload_dir_def logs_dir_def
      catalog_defs world_updated_def sample_env_def init_lobby_def reply_updated_def
      lobby1_def lobby2_def lobby3_updated_def room0_def conn_bob_def)

theorem start_game_floats_version_witness:
  "version (room0 (JInt 2)) = JStr ''1.0''
   \<and> rooms (lobby2 (JInt 2)) = [(''room0001'', room0 (JInt 2))]
   \<and> handle_start_game sample_env world_updated (lobby2 (JInt 2)) conn_bob =
       (world_updated, lobby3_updated, Reply [Msg reply_updated])
   \<and> success reply_updated
   \<and> map_of reply_updated ''version'' = Some (JStr ''1.1'')
   \<and> last (effects lobby3_updated) =
       Spawn 7 [JStr ''python'', JStr ''uploaded_games/chat_1.1/game_server.py'']
   \<and> (\<exists>k r'. map_of (rooms lobby3_updated) k = Some r' \<and> version r' = JStr ''1.1'' \<and>
          status r' = In_game)"
proof -
  have ok: "success reply_updated" by (simp add: success_def reply_updated_def dget_def)
  have v: "map_of reply_updated ''version'' = Some (JStr ''1.1'')"
    by (simp add: reply_updated_def)
  from start_game_floats_version[OF start_updated ok]
  obtain k r' lv where "map_of (rooms lobby3_updated) k = Some r'" "version r' = lv"
    "status r' = In_game" "map_of reply_updated ''version'' = Some lv"
    by blast
  with v have "\<exists>k r'. map_of (rooms lobby3_updated) k = Some r' \<and> version r' = JStr ''1.1'' \<and>
          status r' = In_game"
    by auto
  moreover have "last (effects lobby3_updated) =
       Spawn 7 [JStr ''python'', JStr ''uploaded_games/chat_1.1/game_server.py'']"
    by (simp add: lobby3_updated_def)
  moreover have "version (room0 (JInt 2)) = JStr ''1.0''" by (simp add: room0_def)
  moreover have "rooms (lobby2 (JInt 2)) = [(''room0001'', room0 (JInt 2))]"
    by (simp add: lobby2_def)
  ultimately show ?thesis using start_updated ok v by simp
qed

end
